theory Spec2Isabelle
  imports Main "HOL-Library.Char_ord" "HOL-Library.List_Lexorder" "HOL-Library.Multiset"
begin

unbundle bit_operations_syntax

section \<open>Python values\<close>

text \<open>
  The publisher (\<^verbatim>\<open>scripts/publish_content.py\<close>) works on what \<^verbatim>\<open>yaml.safe_load\<close>
  hands back: \<^verbatim>\<open>None\<close>, booleans, integers, strings, lists and dictionaries keyed by
  strings. Strings are the UTF-8 bytes of the Python string, so that \<^verbatim>\<open>encode("utf-8")\<close>
  is the identity and the order of \<^verbatim>\<open>sorted\<close> (by code point) is the byte-wise
  lexicographic order. A dictionary is an association list in insertion order; Python
  keeps its keys distinct. Floats, dates and binary scalars are not part of the model.
\<close>

datatype pyval =
    PyNone
  | PyBool bool
  | PyInt int
  | PyStr string
  | PyList "pyval list"
  | PyDict "(string \<times> pyval) list"

type_synonym pydict = "(string \<times> pyval) list"

datatype exn =
    ClientError string
  | BotoError string
  | KeyError string
  | TypeError
  | AttributeError
  | NotADirectoryError
  | IsADirectoryError

text \<open>
  How a computation can stop early: \<^verbatim>\<open>sys.exit(code)\<close>, an exception nobody catches,
  or \<open>Unmodelled\<close>: the input left the fragment of Python this theory gives a meaning
  to (the \<^verbatim>\<open>str()\<close> of a list or a dictionary, \<^verbatim>\<open>int()\<close> of a string, a condition
  on a non-numeric version). Nothing is claimed about a run that ends \<open>Unmodelled\<close>.
\<close>

datatype failure = SystemExit int | Raised exn | Unmodelled

definition dict_get :: "pydict \<Rightarrow> string \<Rightarrow> pyval" where
  \<comment> \<open>\<^verbatim>\<open>d.get(k)\<close>\<close>
  "dict_get d k = (case map_of d k of None \<Rightarrow> PyNone | Some v \<Rightarrow> v)"

definition dict_get_default :: "pydict \<Rightarrow> string \<Rightarrow> pyval \<Rightarrow> pyval" where
  \<comment> \<open>\<^verbatim>\<open>d.get(k, default)\<close>\<close>
  "dict_get_default d k dflt = (case map_of d k of None \<Rightarrow> dflt | Some v \<Rightarrow> v)"

fun truthy :: "pyval \<Rightarrow> bool" where
  "truthy PyNone = False"
| "truthy (PyBool b) = b"
| "truthy (PyInt i) = (i \<noteq> 0)"
| "truthy (PyStr s) = (s \<noteq> [])"
| "truthy (PyList xs) = (xs \<noteq> [])"
| "truthy (PyDict d) = (d \<noteq> [])"

definition py_or :: "pyval \<Rightarrow> pyval \<Rightarrow> pyval" where
  \<comment> \<open>\<^verbatim>\<open>a or b\<close>\<close>
  "py_or a b = (if truthy a then a else b)"

definition digit :: "int \<Rightarrow> char" where
  "digit d = ''0123456789'' ! nat d"

function dec_nat :: "int \<Rightarrow> string" where
  "dec_nat n = (if n < 10 then [digit n] else dec_nat (n div 10) @ [digit (n mod 10)])"
  by pat_completeness auto
termination
  by (relation "measure nat") auto

declare dec_nat.simps [simp del]

definition dec_int :: "int \<Rightarrow> string" where
  "dec_int i = (if i < 0 then CHR ''-'' # dec_nat (- i) else dec_nat i)"

fun py_int :: "pyval \<Rightarrow> failure + int" where
  \<comment> \<open>\<^verbatim>\<open>int(v)\<close>\<close>
  "py_int (PyInt i) = Inr i"
| "py_int (PyBool b) = Inr (if b then 1 else 0)"
| "py_int (PyStr s) = Inl Unmodelled"
| "py_int PyNone = Inl (Raised TypeError)"
| "py_int (PyList xs) = Inl (Raised TypeError)"
| "py_int (PyDict d) = Inl (Raised TypeError)"

definition utf8_len :: "string \<Rightarrow> nat" where
  \<comment> \<open>code points of a UTF-8 string: the bytes that are not continuation bytes\<close>
  "utf8_len s = length (filter (\<lambda>c. (of_char c :: nat) div 64 \<noteq> 2) s)"

fun py_len :: "pyval \<Rightarrow> failure + nat" where
  \<comment> \<open>\<^verbatim>\<open>len(v)\<close>\<close>
  "py_len (PyList xs) = Inr (length xs)"
| "py_len (PyDict d) = Inr (length d)"
| "py_len (PyStr s) = Inr (utf8_len s)"
| "py_len PyNone = Inl (Raised TypeError)"
| "py_len (PyBool b) = Inl (Raised TypeError)"
| "py_len (PyInt i) = Inl (Raised TypeError)"

fun py_str :: "pyval \<Rightarrow> string option" where
  \<comment> \<open>\<^verbatim>\<open>str(v)\<close>, as an f-string formats a value; \<open>None\<close> outside the fragment\<close>
  "py_str PyNone = Some ''None''"
| "py_str (PyBool b) = Some (if b then ''True'' else ''False'')"
| "py_str (PyInt i) = Some (dec_int i)"
| "py_str (PyStr s) = Some s"
| "py_str (PyList xs) = None"
| "py_str (PyDict d) = None"

datatype piece = Lit string | Val pyval

fun fstring :: "piece list \<Rightarrow> string option" where
  \<comment> \<open>an f-string: literal text and formatted values, left to right\<close>
  "fstring [] = Some []"
| "fstring (Lit s # ps) = map_option ((@) s) (fstring ps)"
| "fstring (Val v # ps) =
     (case py_str v of None \<Rightarrow> None | Some s \<Rightarrow> map_option ((@) s) (fstring ps))"

section \<open>JSON serialisation\<close>

text \<open>
  \<^verbatim>\<open>json.dumps(obj, ensure_ascii=False, separators=(item, key), sort_keys=sk)\<close>. With
  \<^verbatim>\<open>ensure_ascii=False\<close> only the quote, the backslash and the control characters below
  \<open>0x20\<close> are escaped. \<^verbatim>\<open>sort_keys\<close> sorts the items of every dictionary by key.
\<close>

definition hexdigit :: "nat \<Rightarrow> char" where
  "hexdigit n = ''0123456789abcdef'' ! n"

definition json_escape :: "char \<Rightarrow> string" where
  "json_escape c =
     (if c = CHR 0x22 then [CHR 0x5C, CHR 0x22]
      else if c = CHR 0x5C then [CHR 0x5C, CHR 0x5C]
      else if c = CHR 0x0A then [CHR 0x5C, CHR ''n'']
      else if c = CHR 0x0D then [CHR 0x5C, CHR ''r'']
      else if c = CHR 0x09 then [CHR 0x5C, CHR ''t'']
      else if c = CHR 0x08 then [CHR 0x5C, CHR ''b'']
      else if c = CHR 0x0C then [CHR 0x5C, CHR ''f'']
      else if (of_char c :: nat) < 32
        then [CHR 0x5C, CHR ''u'', CHR ''0'', CHR ''0'',
              hexdigit ((of_char c :: nat) div 16), hexdigit ((of_char c :: nat) mod 16)]
      else [c])"

definition json_str :: "string \<Rightarrow> string" where
  "json_str s = [CHR 0x22] @ concat (map json_escape s) @ [CHR 0x22]"

fun join :: "string \<Rightarrow> string list \<Rightarrow> string" where
  \<comment> \<open>\<^verbatim>\<open>sep.join(xs)\<close>\<close>
  "join sep [] = []"
| "join sep [x] = x"
| "join sep (x # y # ys) = x @ sep @ join sep (y # ys)"

definition json_item :: "string \<Rightarrow> string \<times> string \<Rightarrow> string" where
  "json_item ksep kv = json_str (fst kv) @ ksep @ snd kv"

fun json_dumps :: "bool \<Rightarrow> string \<Rightarrow> string \<Rightarrow> pyval \<Rightarrow> string" where
  "json_dumps sk isep ksep PyNone = ''null''"
| "json_dumps sk isep ksep (PyBool b) = (if b then ''true'' else ''false'')"
| "json_dumps sk isep ksep (PyInt i) = dec_int i"
| "json_dumps sk isep ksep (PyStr s) = json_str s"
| "json_dumps sk isep ksep (PyList xs) =
     ''['' @ join isep (map (json_dumps sk isep ksep) xs) @ '']''"
| "json_dumps sk isep ksep (PyDict d) =
     (let items = map (\<lambda>(k, v). (k, json_dumps sk isep ksep v)) d
      in ''{'' @ join isep (map (json_item ksep) (if sk then sort_key fst items else items)) @ ''}'')"

definition json_default :: "pyval \<Rightarrow> string" where
  \<comment> \<open>\<^verbatim>\<open>json.dumps(obj, ensure_ascii=False)\<close>\<close>
  "json_default obj = json_dumps False '', '' '': '' obj"

definition json_canonical :: "pyval \<Rightarrow> string" where
  \<comment> \<open>\<^verbatim>\<open>json.dumps(obj, ensure_ascii=False, separators=(",", ":"), sort_keys=True)\<close>\<close>
  "json_canonical obj = json_dumps True '','' '':'' obj"

section \<open>SHA-256\<close>

text \<open>
  \<^verbatim>\<open>hashlib.sha256\<close> (FIPS 180-4) on 32-bit words held as integers, every addition
  reduced modulo \<open>2 ^ 32\<close>.
\<close>

definition add32 :: "int \<Rightarrow> int \<Rightarrow> int" where
  "add32 a b = (a + b) mod 4294967296"

definition rotr :: "nat \<Rightarrow> int \<Rightarrow> int" where
  "rotr n x = x div 2 ^ n + (x mod 2 ^ n) * 2 ^ (32 - n)"

definition shr :: "nat \<Rightarrow> int \<Rightarrow> int" where
  "shr n x = x div 2 ^ n"

definition K256 :: "int list" where
  "K256 = [
   1116352408, 1899447441, 3049323471, 3921009573, 961987163, 1508970993, 2453635748, 2870763221,
   3624381080, 310598401, 607225278, 1426881987, 1925078388, 2162078206, 2614888103, 3248222580,
   3835390401, 4022224774, 264347078, 604807628, 770255983, 1249150122, 1555081692, 1996064986,
   2554220882, 2821834349, 2952996808, 3210313671, 3336571891, 3584528711, 113926993, 338241895,
   666307205, 773529912, 1294757372, 1396182291, 1695183700, 1986661051, 2177026350, 2456956037,
   2730485921, 2820302411, 3259730800, 3345764771, 3516065817, 3600352804, 4094571909, 275423344,
   430227734, 506948616, 659060556, 883997877, 958139571, 1322822218, 1537002063, 1747873779,
   1955562222, 2024104815, 2227730452, 2361852424, 2428436474, 2756734187, 3204031479, 3329325298]"

definition H256 :: "int list" where
  "H256 = [1779033703, 3144134277, 1013904242, 2773480762,
           1359893119, 2600822924, 528734635, 1541459225]"

definition Ch :: "int \<Rightarrow> int \<Rightarrow> int \<Rightarrow> int" where
  "Ch x y z = (x AND y) XOR ((4294967295 - x) AND z)"

definition Maj :: "int \<Rightarrow> int \<Rightarrow> int \<Rightarrow> int" where
  "Maj x y z = (x AND y) XOR (x AND z) XOR (y AND z)"

definition bsig0 :: "int \<Rightarrow> int" where
  "bsig0 x = rotr 2 x XOR rotr 13 x XOR rotr 22 x"

definition bsig1 :: "int \<Rightarrow> int" where
  "bsig1 x = rotr 6 x XOR rotr 11 x XOR rotr 25 x"

definition ssig0 :: "int \<Rightarrow> int" where
  "ssig0 x = rotr 7 x XOR rotr 18 x XOR shr 3 x"

definition ssig1 :: "int \<Rightarrow> int" where
  "ssig1 x = rotr 17 x XOR rotr 19 x XOR shr 10 x"

fun sched_ext :: "nat \<Rightarrow> int list \<Rightarrow> int list" where
  \<comment> \<open>the message schedule, newest word first\<close>
  "sched_ext 0 r = r"
| "sched_ext (Suc n) r =
     sched_ext n (add32 (add32 (ssig1 (r ! 1)) (r ! 6)) (add32 (ssig0 (r ! 14)) (r ! 15)) # r)"

definition schedule :: "int list \<Rightarrow> int list" where
  "schedule blk = rev (sched_ext 48 (rev blk))"

fun round256 :: "int list \<Rightarrow> int \<times> int \<Rightarrow> int list" where
  "round256 [a, b, c, d, e, f, g, h] (k, w) =
     (let t1 = add32 (add32 (add32 h (bsig1 e)) (add32 (Ch e f g) k)) w;
          t2 = add32 (bsig0 a) (Maj a b c)
      in [add32 t1 t2, a, b, c, add32 d t1, e, f, g])"
| "round256 s kw = s"

definition compress :: "int list \<Rightarrow> int list \<Rightarrow> int list" where
  "compress hs blk = map2 add32 hs (foldl round256 hs (zip K256 (schedule blk)))"

fun be32 :: "int list \<Rightarrow> int list" where
  \<comment> \<open>big-endian words of a byte sequence\<close>
  "be32 (a # b # c # d # r) = (((a * 256 + b) * 256 + c) * 256 + d) # be32 r"
| "be32 r = []"

definition pad256 :: "int list \<Rightarrow> int list" where
  "pad256 m =
     (let n = length m;
          z = (119 - n mod 64) mod 64;
          bits = 8 * int n
      in m @ [0x80] @ replicate z 0 @ map (\<lambda>i. (bits div 256 ^ (7 - i)) mod 256) [0..<8])"

fun blocks :: "nat \<Rightarrow> int list \<Rightarrow> int list list" where
  "blocks 0 ws = []"
| "blocks (Suc n) ws = take 16 ws # blocks n (drop 16 ws)"

definition sha256 :: "int list \<Rightarrow> int list" where
  "sha256 m = (let ws = be32 (pad256 m) in foldl compress H256 (blocks (length ws div 16) ws))"

definition hex32 :: "int \<Rightarrow> string" where
  "hex32 w = map (\<lambda>i. hexdigit (nat ((w div 16 ^ (7 - i)) mod 16))) [0..<8]"

definition sha256_hexdigest :: "string \<Rightarrow> string" where
  "sha256_hexdigest s = concat (map hex32 (sha256 (map of_char s)))"

definition sha256_short :: "pyval \<Rightarrow> string" where
  "sha256_short obj = take 16 (sha256_hexdigest (json_canonical obj))"

section \<open>The world: stores, streams, clock\<close>

text \<open>
  The DynamoDB table is a map from the primary key (the string attributes \<open>PK\<close> and
  \<open>SK\<close> that every item of the publisher carries) to the stored item; the bucket is a map
  from (bucket, key) to the stored object. Every request sent to either service is
  recorded in \<open>requests\<close>. The environment decides which request fails (throttling,
  permissions, network) and what the clock reads.
\<close>

datatype cond =
    AttributeNotExists string
  | AttrLe string pyval
  | CondOr cond cond

datatype request =
    PutObject string string string string string
  | PutItem pydict "cond option"

record s3_object =
  body :: string
  content_type :: string
  cache_control :: string

record world =
  table :: "string \<times> string \<Rightarrow> pydict option"
  objects :: "string \<times> string \<Rightarrow> s3_object option"
  stdout :: "string list"
  stderr :: "string list"
  requests :: "request list"
  clock_reads :: nat

record env =
  fault_at :: "nat \<Rightarrow> exn option"
  time_at :: "nat \<Rightarrow> int"

type_synonym 'a m = "world \<Rightarrow> (failure + 'a) \<times> world"

definition ok :: "'a \<Rightarrow> 'a m" where
  "ok x = (\<lambda>w. (Inr x, w))"

definition stop :: "failure \<Rightarrow> 'a m" where
  "stop f = (\<lambda>w. (Inl f, w))"

definition raise :: "exn \<Rightarrow> 'a m" where
  "raise e = stop (Raised e)"

definition bind_m :: "'a m \<Rightarrow> ('a \<Rightarrow> 'b m) \<Rightarrow> 'b m" where
  "bind_m c f = (\<lambda>w. case c w of (Inl e, w') \<Rightarrow> (Inl e, w') | (Inr x, w') \<Rightarrow> f x w')"

definition lift :: "failure + 'a \<Rightarrow> 'a m" where
  "lift r = (\<lambda>w. (r, w))"

definition try_m :: "unit m \<Rightarrow> (exn \<Rightarrow> unit m) \<Rightarrow> unit m" where
  \<comment> \<open>\<^verbatim>\<open>try: c  except Exception as e: handler(e)\<close>; \<^verbatim>\<open>SystemExit\<close> passes through\<close>
  "try_m c handler =
     (\<lambda>w. case c w of (Inl (Raised e), w') \<Rightarrow> handler e w' | r \<Rightarrow> r)"

fun for_each :: "('a \<Rightarrow> unit m) \<Rightarrow> 'a list \<Rightarrow> unit m" where
  "for_each f [] = ok ()"
| "for_each f (x # xs) = bind_m (f x) (\<lambda>u. for_each f xs)"

definition py_print :: "string \<Rightarrow> unit m" where
  "py_print line = (\<lambda>w. (Inr (), w\<lparr>stdout := stdout w @ [line]\<rparr>))"

definition die :: "string \<Rightarrow> 'a m" where
  \<comment> \<open>\<^verbatim>\<open>print(f"[ERROR] {msg}", file=sys.stderr); sys.exit(1)\<close>\<close>
  "die msg = (\<lambda>w. (Inl (SystemExit 1), w\<lparr>stderr := stderr w @ [''[ERROR] '' @ msg]\<rparr>))"

definition now :: "env \<Rightarrow> int m" where
  \<comment> \<open>\<^verbatim>\<open>int(time.time())\<close>\<close>
  "now ev = (\<lambda>w. (Inr (time_at ev (clock_reads w)), w\<lparr>clock_reads := Suc (clock_reads w)\<rparr>))"

definition fmt :: "piece list \<Rightarrow> string m" where
  "fmt ps = (case fstring ps of None \<Rightarrow> stop Unmodelled | Some s \<Rightarrow> ok s)"

definition subscript :: "pydict \<Rightarrow> string \<Rightarrow> pyval m" where
  \<comment> \<open>\<^verbatim>\<open>d[k]\<close>\<close>
  "subscript d k = (case map_of d k of None \<Rightarrow> raise (KeyError k) | Some v \<Rightarrow> ok v)"

subsection \<open>The two services\<close>

definition put_object :: "env \<Rightarrow> string \<Rightarrow> string \<Rightarrow> string \<Rightarrow> string \<Rightarrow> string \<Rightarrow> unit m" where
  \<comment> \<open>\<^verbatim>\<open>s3.put_object(Bucket=, Key=, Body=, ContentType=, CacheControl=)\<close>\<close>
  "put_object ev bucket key bytes ctype cache =
     (\<lambda>w. let w1 = w\<lparr>requests := requests w @ [PutObject bucket key bytes ctype cache]\<rparr>
          in case fault_at ev (length (requests w)) of
               Some e \<Rightarrow> (Inl (Raised e), w1)
             | None \<Rightarrow>
                 (Inr (), w1\<lparr>objects := (objects w1)((bucket, key) \<mapsto>
                    \<lparr>body = bytes, content_type = ctype, cache_control = cache\<rparr>)\<rparr>))"

definition item_key :: "pydict \<Rightarrow> (string \<times> string) option" where
  "item_key item =
     (case (map_of item ''PK'', map_of item ''SK'') of
        (Some (PyStr pk), Some (PyStr sk)) \<Rightarrow> Some (pk, sk)
      | other \<Rightarrow> None)"

fun eval_cond :: "pydict option \<Rightarrow> cond \<Rightarrow> bool option" where
  \<comment> \<open>a condition expression on the item stored under the key (none: an empty item);
      a comparison between values of different types is false\<close>
  "eval_cond old (AttributeNotExists a) =
     Some (case old of None \<Rightarrow> True | Some it \<Rightarrow> map_of it a = None)"
| "eval_cond old (AttrLe a (PyInt n)) =
     Some (case old of
             None \<Rightarrow> False
           | Some it \<Rightarrow> (case map_of it a of Some (PyInt m) \<Rightarrow> m \<le> n | other \<Rightarrow> False))"
| "eval_cond old (AttrLe a v) = None"
| "eval_cond old (CondOr c1 c2) =
     (case (eval_cond old c1, eval_cond old c2) of
        (Some b1, Some b2) \<Rightarrow> Some (b1 \<or> b2)
      | other \<Rightarrow> None)"

definition ConditionalCheckFailed :: string where
  "ConditionalCheckFailed = ''ConditionalCheckFailedException''"

definition put_item :: "env \<Rightarrow> pydict \<Rightarrow> cond option \<Rightarrow> unit m" where
  \<comment> \<open>\<^verbatim>\<open>table.put_item(Item=, ConditionExpression=, ...)\<close>\<close>
  "put_item ev item c =
     (\<lambda>w. let w1 = w\<lparr>requests := requests w @ [PutItem item c]\<rparr>
          in case fault_at ev (length (requests w)) of
               Some e \<Rightarrow> (Inl (Raised e), w1)
             | None \<Rightarrow>
                 (case item_key item of
                    None \<Rightarrow> (Inl (Raised (ClientError ''ValidationException'')), w1)
                  | Some k \<Rightarrow>
                      (case (case c of None \<Rightarrow> Some True | Some ce \<Rightarrow> eval_cond (table w k) ce) of
                         None \<Rightarrow> (Inl Unmodelled, w1)
                       | Some False \<Rightarrow> (Inl (Raised (ClientError ConditionalCheckFailed)), w1)
                       | Some True \<Rightarrow> (Inr (), w1\<lparr>table := (table w1)(k \<mapsto> item)\<rparr>))))"

section \<open>The store clients\<close>

definition s3_put_json :: "env \<Rightarrow> string \<Rightarrow> string \<Rightarrow> pyval \<Rightarrow> bool \<Rightarrow> unit m" where
  "s3_put_json ev bucket key obj dry =
     (let bytes = json_default obj in
      if dry then
        py_print (''[DRY] S3 PUT s3://'' @ bucket @ ''/'' @ key @
                  '' ('' @ dec_int (int (length bytes)) @ '' bytes)'')
      else
        bind_m (put_object ev bucket key bytes ''application/json'' ''max-age=0,no-cache,no-store'')
          (\<lambda>u. py_print (''[OK ] S3 PUT s3://'' @ bucket @ ''/'' @ key)))"

definition version_guard :: "pydict \<Rightarrow> bool \<Rightarrow> cond option" where
  \<comment> \<open>\<^verbatim>\<open>attribute_not_exists(#v) OR #v <= :newv\<close>, when \<^verbatim>\<open>guard_version and "version" in item\<close>\<close>
  "version_guard item guard_version =
     (if guard_version then
        (case map_of item ''version'' of
           None \<Rightarrow> None
         | Some v \<Rightarrow> Some (CondOr (AttributeNotExists ''version'') (AttrLe ''version'' v)))
      else None)"

definition log_put :: "string \<Rightarrow> pydict \<Rightarrow> unit m" where
  \<comment> \<open>\<^verbatim>\<open>print(f"<tag>{item['PK']} {item['SK']}")\<close>\<close>
  "log_put tag item =
     bind_m (subscript item ''PK'') (\<lambda>pk.
     bind_m (subscript item ''SK'') (\<lambda>sk.
     bind_m (fmt [Lit tag, Val pk, Lit '' '', Val sk]) py_print))"

definition ddb_put_live :: "env \<Rightarrow> pydict \<Rightarrow> bool \<Rightarrow> bool \<Rightarrow> unit m" where
  "ddb_put_live ev item guard_version dry =
     (if dry then
        bind_m (subscript item ''PK'') (\<lambda>pk.
        bind_m (subscript item ''SK'') (\<lambda>sk.
        bind_m (fmt [Lit ''[DRY] DDB PUT '', Val pk, Lit '' '', Val sk, Lit '' -> '',
                     Lit (json_default (PyDict item))]) py_print))
      else
        try_m
          (bind_m (put_item ev item (version_guard item guard_version))
             (\<lambda>u. log_put ''[OK ] DDB PUT '' item))
          (\<lambda>e. case e of
                 ClientError code \<Rightarrow>
                   if code = ConditionalCheckFailed
                   then log_put ''[SKIP] Newer/equal version exists for '' item
                   else raise e
               | other \<Rightarrow> raise e))"

section \<open>Discovery\<close>

text \<open>
  The content tree: a file is what \<^verbatim>\<open>yaml.safe_load\<close> returns for it, a directory an
  association list of its entries.
\<close>

datatype fsnode = File pyval | Dir "(string \<times> fsnode) list"

definition SEP :: string where
  "SEP = ''#''"

definition startswith :: "string \<Rightarrow> string \<Rightarrow> bool" where
  "startswith n pre = (take (length pre) n = pre)"

definition endswith :: "string \<Rightarrow> string \<Rightarrow> bool" where
  "endswith n suf = (length suf \<le> length n \<and> drop (length n - length suf) n = suf)"

definition subdirs :: "string \<Rightarrow> (string \<times> fsnode) list \<Rightarrow> (string \<times> (string \<times> fsnode) list) list" where
  \<comment> \<open>\<^verbatim>\<open>sorted(p for p in d.iterdir() if p.is_dir() and p.name.startswith(pre))\<close>\<close>
  "subdirs pre es =
     sort_key fst (List.map_filter
       (\<lambda>(n, x). case x of Dir c \<Rightarrow> if startswith n pre then Some (n, c) else None
                         | File v \<Rightarrow> None) es)"

definition child :: "string \<Rightarrow> string \<Rightarrow> string" where
  \<comment> \<open>\<^verbatim>\<open>str(Path(p) / name)\<close> for the string \<open>p\<close> of a path\<close>
  "child p name =
     (if p = ''.'' then name else if last p = CHR ''/'' then p @ name else p @ ''/'' @ name)"

definition stem :: "string \<Rightarrow> string" where
  \<comment> \<open>\<^verbatim>\<open>PurePath.stem\<close>: the name up to its last dot, unless that dot is first or last\<close>
  "stem n =
     (let j = length (takeWhile (\<lambda>c. c \<noteq> CHR ''.'') (rev n)) in
      if j < length n \<and> 0 < length n - 1 - j \<and> 0 < j then take (length n - 1 - j) n else n)"

definition discover_unit_yaml ::
    "(string \<times> fsnode) list \<Rightarrow> string \<Rightarrow> (string \<times> fsnode) list \<Rightarrow> fsnode m" where
  "discover_unit_yaml root_entries uname uentries =
     (case map_of uentries (uname @ ''.yaml'') of
        Some in_dir \<Rightarrow> ok in_dir
      | None \<Rightarrow>
          (case map_of root_entries (uname @ ''.yaml'') of
             Some sibling \<Rightarrow> ok sibling
           | None \<Rightarrow> die (''Unit YAML not found for '' @ uname)))"

definition discover_episode_yaml :: "string \<Rightarrow> string \<Rightarrow> (string \<times> fsnode) list \<Rightarrow> fsnode m" where
  "discover_episode_yaml ep_path ename eentries =
     (case map_of eentries (ename @ ''.yaml'') of
        Some p \<Rightarrow> ok p
      | None \<Rightarrow> die (''Episode YAML not found: '' @ child ep_path (ename @ ''.yaml'')))"

definition list_activity_yaml :: "(string \<times> fsnode) list \<Rightarrow> (string \<times> pyval) list m" where
  \<comment> \<open>\<^verbatim>\<open>sorted(p for p in act_dir.glob("a_*.yaml") if p.is_file())\<close>\<close>
  "list_activity_yaml eentries =
     (case map_of eentries ''activities'' of
        None \<Rightarrow> ok []
      | Some (File v) \<Rightarrow> stop Unmodelled
      | Some (Dir aes) \<Rightarrow>
          ok (sort_key fst (List.map_filter
               (\<lambda>(n, x). case x of
                   File v \<Rightarrow> if startswith n ''a_'' \<and> endswith n ''.yaml'' \<and> 7 \<le> length n
                             then Some (n, v) else None
                 | Dir c \<Rightarrow> None) aes)))"

definition load_yaml :: "fsnode \<Rightarrow> pyval m" where
  \<comment> \<open>\<^verbatim>\<open>yaml.safe_load(f) or {}\<close>\<close>
  "load_yaml node =
     (case node of File v \<Rightarrow> ok (py_or v (PyDict [])) | Dir c \<Rightarrow> raise IsADirectoryError)"

definition as_dict :: "pyval \<Rightarrow> pydict m" where
  \<comment> \<open>the receiver of \<^verbatim>\<open>.get\<close>: anything but a dictionary has no such attribute\<close>
  "as_dict v = (case v of PyDict d \<Rightarrow> ok d | other \<Rightarrow> raise AttributeError)"

section \<open>Manifests\<close>

definition build_manifest :: "pyval \<Rightarrow> pyval \<Rightarrow> pydict \<Rightarrow> failure + pydict" where
  "build_manifest unit_id episode_id a_yaml =
     (let aid = dict_get a_yaml ''id'';
          title = dict_get_default a_yaml ''title'' aid in
      case py_int (dict_get_default a_yaml ''version'' (PyInt 1)) of
        Inl f \<Rightarrow> Inl f
      | Inr version \<Rightarrow>
          (let locale = dict_get_default a_yaml ''locale'' (PyStr ''en-US'');
               questions = dict_get_default a_yaml ''questions'' (PyList []) in
           case fstring [Val unit_id, Lit ''/'', Val episode_id, Lit ''/'', Val aid] of
             None \<Rightarrow> Inl Unmodelled
           | Some fq \<Rightarrow>
               (case py_len questions of
                  Inl f \<Rightarrow> Inl f
                | Inr nq \<Rightarrow>
                    Inr [(''unitId'', unit_id),
                         (''episodeId'', episode_id),
                         (''activityId'', aid),
                         (''activityFqId'', PyStr fq),
                         (''title'', title),
                         (''version'', PyInt version),
                         (''locale'', locale),
                         (''total'', PyInt (int nq)),
                         (''questions'', questions)])))"

section \<open>The publish pipeline\<close>

definition unit_item :: "string \<Rightarrow> pyval \<Rightarrow> pyval \<Rightarrow> string list \<Rightarrow> int \<Rightarrow> pydict" where
  "unit_item uid unit_title unit_content ep_names t =
     [(''PK'', PyStr (''UNIT#'' @ uid)),
      (''SK'', PyStr ''LIVE''),
      (''entityType'', PyStr ''UNIT_LIVE''),
      (''title'', unit_title),
      (''content'', unit_content),
      (''episodeIds'', PyList (map PyStr ep_names)),
      (''episodeFqIds'', PyList (map (\<lambda>n. PyStr (uid @ SEP @ n)) ep_names)),
      (''updatedAt'', PyInt t)]"

definition episode_item ::
    "pyval \<Rightarrow> string \<Rightarrow> pyval \<Rightarrow> string \<Rightarrow> pyval \<Rightarrow> string list \<Rightarrow> int \<Rightarrow> pydict" where
  "episode_item unit_id uid episode_id eid episode_title stems t =
     [(''PK'', PyStr (''EPISODE#'' @ uid @ SEP @ eid)),
      (''SK'', PyStr ''LIVE''),
      (''entityType'', PyStr ''EPISODE_LIVE''),
      (''unitId'', unit_id),
      (''episodeId'', episode_id),
      (''title'', episode_title),
      (''activityIds'', PyList (map PyStr stems)),
      (''activityFqIds'', PyList (map (\<lambda>n. PyStr (uid @ SEP @ eid @ SEP @ n)) stems)),
      (''updatedAt'', PyInt t)]"

definition activity_item ::
    "pyval \<Rightarrow> string \<Rightarrow> pyval \<Rightarrow> string \<Rightarrow> pyval \<Rightarrow> string \<Rightarrow> pyval \<Rightarrow> pyval \<Rightarrow>
     string \<Rightarrow> string \<Rightarrow> pyval \<Rightarrow> int \<Rightarrow> int \<Rightarrow> pydict" where
  "activity_item unit_id uid episode_id eid activity_id aid activity_title locale
       bucket s3_key total_questions version t =
     [(''PK'', PyStr (''ACTIVITY#'' @ uid @ SEP @ eid @ SEP @ aid)),
      (''SK'', PyStr ''LIVE''),
      (''entityType'', PyStr ''ACTIVITY_LIVE''),
      (''unitId'', unit_id),
      (''episodeId'', episode_id),
      (''activityId'', activity_id),
      (''activityFqid'', PyStr (uid @ SEP @ eid @ SEP @ aid)),
      (''title'', activity_title),
      (''locale'', locale),
      (''manifestS3Key'', PyStr (''s3://'' @ bucket @ ''/'' @ s3_key)),
      (''totalQuestions'', total_questions),
      (''version'', PyInt version),
      (''updatedAt'', PyInt t)]"

definition publish_activity ::
    "env \<Rightarrow> string \<Rightarrow> string \<Rightarrow> bool \<Rightarrow> pyval \<Rightarrow> string \<Rightarrow> pyval \<Rightarrow> string \<Rightarrow>
     string \<times> pyval \<Rightarrow> unit m" where
  "publish_activity ev bucket s3_prefix dry unit_id uid episode_id eid a_path =
     bind_m (load_yaml (File (snd a_path))) (\<lambda>loaded.
     bind_m (as_dict loaded) (\<lambda>a_yaml.
     let activity_id = py_or (dict_get a_yaml ''id'') (PyStr (stem (fst a_path)));
         activity_title = dict_get_default a_yaml ''title'' activity_id in
     bind_m (lift (py_int (dict_get_default a_yaml ''version'' (PyInt 1)))) (\<lambda>version.
     bind_m (lift (build_manifest unit_id episode_id a_yaml)) (\<lambda>manifest.
     let mhash = sha256_short (PyDict manifest) in
     bind_m (fmt [Val activity_id]) (\<lambda>aid.
     bind_m (subscript manifest ''version'') (\<lambda>mversion.
     bind_m (fmt [Lit s3_prefix, Lit ''/'', Lit uid, Lit ''/'', Lit eid, Lit ''/'', Lit aid,
                  Lit ''/v'', Val mversion, Lit ''/manifest-'', Lit mhash, Lit ''.json'']) (\<lambda>s3_key.
     bind_m (s3_put_json ev bucket s3_key (PyDict manifest) dry) (\<lambda>u.
     bind_m (subscript manifest ''total'') (\<lambda>total_questions.
     bind_m (now ev) (\<lambda>t.
     ddb_put_live ev
       (activity_item unit_id uid episode_id eid activity_id aid activity_title
          (dict_get_default manifest ''locale'' (PyStr ''en-US'')) bucket s3_key total_questions version t)
       True dry))))))))))"

definition publish_episode ::
    "env \<Rightarrow> string \<Rightarrow> string \<Rightarrow> bool \<Rightarrow> string \<Rightarrow> pyval \<Rightarrow> string \<Rightarrow>
     string \<times> (string \<times> fsnode) list \<Rightarrow> unit m" where
  "publish_episode ev bucket s3_prefix dry episodes_path unit_id uid ep_dir =
     bind_m (discover_episode_yaml (child episodes_path (fst ep_dir)) (fst ep_dir) (snd ep_dir)) (\<lambda>p.
     bind_m (load_yaml p) (\<lambda>loaded.
     bind_m (as_dict loaded) (\<lambda>ep_yaml.
     let episode_id = py_or (dict_get ep_yaml ''id'') (PyStr (fst ep_dir));
         episode_title = dict_get_default ep_yaml ''title'' episode_id in
     bind_m (list_activity_yaml (snd ep_dir)) (\<lambda>acts.
     bind_m (fmt [Val episode_id]) (\<lambda>eid.
     bind_m (now ev) (\<lambda>t.
     bind_m (ddb_put_live ev
               (episode_item unit_id uid episode_id eid episode_title (map (stem \<circ> fst) acts) t)
               False dry) (\<lambda>u.
     for_each (publish_activity ev bucket s3_prefix dry unit_id uid episode_id eid) acts)))))))"

definition episode_dirs ::
    "(string \<times> fsnode) list \<Rightarrow> (string \<times> (string \<times> fsnode) list) list m" where
  \<comment> \<open>the episode directories of a unit: none without an \<^verbatim>\<open>episodes\<close> entry;
      \<^verbatim>\<open>iterdir\<close> raises on a file of that name\<close>
  "episode_dirs uentries =
     (case map_of uentries ''episodes'' of
        None \<Rightarrow> ok []
      | Some (File v) \<Rightarrow> raise NotADirectoryError
      | Some (Dir ees) \<Rightarrow> ok (subdirs ''e_'' ees))"

definition publish_unit ::
    "env \<Rightarrow> string \<Rightarrow> string \<Rightarrow> bool \<Rightarrow> string \<Rightarrow> (string \<times> fsnode) list \<Rightarrow>
     string \<times> (string \<times> fsnode) list \<Rightarrow> unit m" where
  "publish_unit ev bucket s3_prefix dry root_path root_entries unit_dir =
     bind_m (discover_unit_yaml root_entries (fst unit_dir) (snd unit_dir)) (\<lambda>p.
     bind_m (load_yaml p) (\<lambda>loaded.
     bind_m (as_dict loaded) (\<lambda>unit_yaml.
     let unit_id = py_or (dict_get unit_yaml ''id'') (PyStr (fst unit_dir));
         unit_title = dict_get_default unit_yaml ''title'' unit_id;
         unit_content = dict_get_default unit_yaml ''content'' (PyStr []) in
     bind_m (episode_dirs (snd unit_dir)) (\<lambda>ep_dirs.
     bind_m (fmt [Val unit_id]) (\<lambda>uid.
     bind_m (now ev) (\<lambda>t.
     bind_m (ddb_put_live ev (unit_item uid unit_title unit_content (map fst ep_dirs) t)
               False dry) (\<lambda>u.
     if map_of (snd unit_dir) ''episodes'' = None
     then py_print (''[WARN] No episodes folder for unit '' @ uid)
     else for_each
            (publish_episode ev bucket s3_prefix dry
               (child (child root_path (fst unit_dir)) ''episodes'') unit_id uid)
            ep_dirs)))))))"

definition publish :: "env \<Rightarrow> string \<Rightarrow> fsnode option \<Rightarrow> string \<Rightarrow> string \<Rightarrow> bool \<Rightarrow> unit m" where
  "publish ev root_path root bucket s3_prefix dry =
     (case root of
        None \<Rightarrow> die (''Root not found: '' @ root_path)
      | Some (File v) \<Rightarrow> raise NotADirectoryError
      | Some (Dir root_entries) \<Rightarrow>
          bind_m (for_each (publish_unit ev bucket s3_prefix dry root_path root_entries)
                    (subdirs ''u_'' root_entries))
            (\<lambda>u. py_print ''[DONE] publish complete.''))"

section \<open>Vocabulary of the properties\<close>

definition sent :: "request \<Rightarrow> world \<Rightarrow> world" where
  \<comment> \<open>the world after one more request went out\<close>
  "sent r w = w\<lparr>requests := requests w @ [r]\<rparr>"

definition said :: "string \<Rightarrow> world \<Rightarrow> world" where
  \<comment> \<open>the world after one more line on standard output\<close>
  "said l w = w\<lparr>stdout := stdout w @ [l]\<rparr>"

definition version_of :: "pydict \<Rightarrow> int option" where
  "version_of it = (case map_of it ''version'' of Some (PyInt v) \<Rightarrow> Some v | other \<Rightarrow> None)"

definition live_version :: "world \<Rightarrow> string \<times> string \<Rightarrow> int option" where
  \<comment> \<open>the version of the live record under a key\<close>
  "live_version w k = (case table w k of None \<Rightarrow> None | Some it \<Rightarrow> version_of it)"


definition ticked :: "world \<Rightarrow> world" where
  \<comment> \<open>the world after one more reading of the clock\<close>
  "ticked w = w\<lparr>clock_reads := Suc (clock_reads w)\<rparr>"

definition stored :: "string \<times> string \<Rightarrow> pydict \<Rightarrow> world \<Rightarrow> world" where
  \<comment> \<open>the world after the table took an item under a key\<close>
  "stored k item w = w\<lparr>table := (table w)(k \<mapsto> item)\<rparr>"

definition id_or :: "pydict \<Rightarrow> string \<Rightarrow> pyval" where
  \<comment> \<open>\<^verbatim>\<open>doc.get("id") or name\<close>: the declared id, or the directory's or file's name\<close>
  "id_or d name = py_or (dict_get d ''id'') (PyStr name)"

definition manifest_key :: "string \<Rightarrow> string \<Rightarrow> string \<Rightarrow> string \<Rightarrow> int \<Rightarrow> pydict \<Rightarrow> string" where
  \<comment> \<open>the object key of a manifest\<close>
  "manifest_key s3_prefix uid eid aid v m =
     s3_prefix @ ''/'' @ uid @ ''/'' @ eid @ ''/'' @ aid @ ''/v'' @ dec_int v @
     ''/manifest-'' @ sha256_short (PyDict m) @ ''.json''"

definition quiet :: "'a m \<Rightarrow> bool" where
  \<comment> \<open>a computation that sends no request and leaves both stores as they are\<close>
  "quiet c \<longleftrightarrow>
     (\<forall>w. table (snd (c w)) = table w \<and> objects (snd (c w)) = objects w \<and>
          requests (snd (c w)) = requests w)"

named_theorems quiet_intros

definition alike :: "env \<Rightarrow> world \<Rightarrow> world \<Rightarrow> bool" where
  \<comment> \<open>the environment answers alike from two worlds on: same faults, same clock readings\<close>
  "alike ev w w' \<longleftrightarrow>
     (\<forall>i. fault_at ev (length (requests w) + i) = fault_at ev (length (requests w') + i)) \<and>
     (\<forall>i. time_at ev (clock_reads w + i) = time_at ev (clock_reads w' + i))"

definition uniform :: "env \<Rightarrow> 'a m \<Rightarrow> bool" where
  \<comment> \<open>a computation whose outcome, requests and clock readings do not depend on the stores\<close>
  "uniform ev c \<longleftrightarrow>
     (\<forall>w w'. alike ev w w' \<longrightarrow>
        (\<exists>rs n. fst (c w) = fst (c w') \<and>
           requests (snd (c w)) = requests w @ rs \<and> requests (snd (c w')) = requests w' @ rs \<and>
           clock_reads (snd (c w)) = clock_reads w + n \<and>
           clock_reads (snd (c w')) = clock_reads w' + n))"

named_theorems uniform_intros

text \<open>
  Two values with the same content: equal up to the order in which the keys of their
  dictionaries were inserted (a dictionary has each key once).
\<close>

inductive same_content :: "pyval \<Rightarrow> pyval \<Rightarrow> bool" where
  sc_none: "same_content PyNone PyNone"
| sc_bool: "same_content (PyBool b) (PyBool b)"
| sc_int: "same_content (PyInt i) (PyInt i)"
| sc_str: "same_content (PyStr s) (PyStr s)"
| sc_list: "list_all2 same_content xs ys \<Longrightarrow> same_content (PyList xs) (PyList ys)"
| sc_dict: "distinct (map fst d1) \<Longrightarrow> distinct (map fst d2) \<Longrightarrow> length d1 = length d2 \<Longrightarrow>
            (\<forall>kv\<in>set d1. \<exists>v'. (fst kv, v') \<in> set d2 \<and> same_content (snd kv) v') \<Longrightarrow>
            same_content (PyDict d1) (PyDict d2)"


text \<open>
  What a request does to the table when the service does not fail, and a list of
  requests one after the other; \<open>act\<close> is the same seen from one key.
\<close>

fun store_effect :: "request \<Rightarrow> (string \<times> string \<Rightarrow> pydict option) \<Rightarrow> (string \<times> string \<Rightarrow> pydict option)" where
  "store_effect (PutObject b k bytes ct cc) T = T"
| "store_effect (PutItem item c) T =
     (case item_key item of
        None \<Rightarrow> T
      | Some k \<Rightarrow>
          if (case c of None \<Rightarrow> Some True | Some ce \<Rightarrow> eval_cond (T k) ce) = Some True
          then T(k \<mapsto> item) else T)"

definition replay :: "request list \<Rightarrow> (string \<times> string \<Rightarrow> pydict option) \<Rightarrow> (string \<times> string \<Rightarrow> pydict option)" where
  "replay rs T = fold store_effect rs T"


definition well_guarded :: "request \<Rightarrow> bool" where
  \<comment> \<open>a request as the live-registry client builds it: no condition, or the version guard\<close>
  "well_guarded r \<longleftrightarrow>
     (case r of PutObject b k bytes ct cc \<Rightarrow> True
              | PutItem item c \<Rightarrow> c = version_guard item True \<or> c = None)"





definition tracks :: "'a m \<Rightarrow> bool" where
  \<comment> \<open>the table after a computation is the table before, with the requests it sent replayed\<close>
  "tracks c \<longleftrightarrow>
     (\<forall>w. \<exists>rs. requests (snd (c w)) = requests w @ rs \<and>
               table (snd (c w)) = replay rs (table w) \<and> (\<forall>r\<in>set rs. well_guarded r))"

named_theorems tracks_intros

subsection \<open>Example inputs\<close>

definition world0 :: world where
  "world0 = \<lparr>table = Map.empty, objects = Map.empty, stdout = [], stderr = [],
             requests = [], clock_reads = 0\<rparr>"

definition env_ok :: env where
  "env_ok = \<lparr>fault_at = (\<lambda>n. None), time_at = (\<lambda>n. 1700000000)\<rparr>"

definition demo_item :: "int \<Rightarrow> pydict" where
  "demo_item v =
     activity_item (PyStr ''u_1'') ''u_1'' (PyStr ''e_1'') ''e_1'' (PyStr ''a_1'') ''a_1''
       (PyStr ''a_1'') (PyStr ''en-US'') ''bkt'' ''activities/u_1/e_1/a_1/manifest.json''
       (PyInt 0) v 1700000000"

definition world_live :: "int \<Rightarrow> world" where
  \<comment> \<open>a table whose only record is the demo activity at version \<open>v\<close>\<close>
  "world_live v = world0\<lparr>table := [(''ACTIVITY#u_1#e_1#a_1'', ''LIVE'') \<mapsto> demo_item v]\<rparr>"

definition manifest_intro :: pydict where
  "manifest_intro =
     [(''unitId'', PyStr ''u_1''), (''episodeId'', PyStr ''e_1''), (''activityId'', PyStr ''a_1''),
      (''activityFqId'', PyStr ''u_1/e_1/a_1''), (''title'', PyStr ''Intro''),
      (''version'', PyInt 1), (''locale'', PyStr ''en-US''), (''total'', PyInt 0),
      (''questions'', PyList [])]"

definition manifest_basics :: pydict where
  "manifest_basics =
     [(''unitId'', PyStr ''u_1''), (''episodeId'', PyStr ''e_1''), (''activityId'', PyStr ''a_1''),
      (''activityFqId'', PyStr ''u_1/e_1/a_1''), (''title'', PyStr ''Basics''),
      (''version'', PyInt 1), (''locale'', PyStr ''en-US''), (''total'', PyInt 0),
      (''questions'', PyList [])]"

definition demo_tree :: fsnode where
  "demo_tree =
     Dir [(''u_1'', Dir
        [(''u_1.yaml'', File (PyDict [(''title'', PyStr ''Intro'')])),
         (''episodes'', Dir
            [(''e_1'', Dir
               [(''e_1.yaml'', File (PyDict [(''title'', PyStr ''Basics'')])),
                (''activities'', Dir
                   [(''a_1.yaml'', File (PyDict [(''id'', PyStr ''a_1''), (''version'', PyInt 1)]))])])])])]"








section \<open>Basic facts\<close>

lemma bind_ok [simp]: "bind_m (ok x) f = f x"
  by (simp add: bind_m_def ok_def)

lemma bind_stop [simp]: "bind_m (stop e) f = stop e"
  by (simp add: bind_m_def stop_def)

lemma bind_raise [simp]: "bind_m (raise e) f = raise e"
  by (simp add: raise_def)

lemma bind_lift_Inr [simp]: "bind_m (lift (Inr x)) f = f x"
  by (simp add: bind_m_def lift_def)

lemma bind_lift_Inl [simp]: "bind_m (lift (Inl e)) f = stop e"
  by (simp add: bind_m_def lift_def stop_def)

lemma bind_Inl: "c w = (Inl e, w') \<Longrightarrow> bind_m c f w = (Inl e, w')"
  by (simp add: bind_m_def)

lemma bind_Inr: "c w = (Inr x, w') \<Longrightarrow> bind_m c f w = f x w'"
  by (simp add: bind_m_def)

lemma item_key_Some:
  "item_key item = Some (pk, sk) \<longleftrightarrow>
     map_of item ''PK'' = Some (PyStr pk) \<and> map_of item ''SK'' = Some (PyStr sk)"
  by (auto simp: item_key_def split: option.splits pyval.splits)

lemma version_of_Some: "version_of it = Some v \<longleftrightarrow> map_of it ''version'' = Some (PyInt v)"
  by (auto simp: version_of_def split: option.splits pyval.splits)

lemma log_put_key:
  "item_key item = Some (pk, sk) \<Longrightarrow> log_put tag item = py_print (tag @ pk @ '' '' @ sk)"
  by (simp add: item_key_Some log_put_def subscript_def fmt_def)

lemma item_key_activity_item [simp]:
  "item_key (activity_item unit_id uid episode_id eid activity_id aid ti lo bk s3k tq v t) =
     Some (''ACTIVITY#'' @ uid @ SEP @ eid @ SEP @ aid, ''LIVE'')"
  by (simp add: item_key_def activity_item_def)

lemma version_activity_item [simp]:
  "map_of (activity_item unit_id uid episode_id eid activity_id aid ti lo bk s3k tq v t) ''version'' =
     Some (PyInt v)"
  by (simp add: activity_item_def)

section \<open>The guarded live write\<close>

text \<open>
  What a live write that is not a dry run does, for an item with its key: the request
  goes out; a fault of the service is raised, except that a failed condition is logged
  as a skip; otherwise the condition (if any) decides between the write and the skip.
\<close>

lemma ddb_put_live_run:
  assumes "item_key item = Some (pk, sk)"
  shows "ddb_put_live ev item g False w =
    (let w1 = sent (PutItem item (version_guard item g)) w in
     case fault_at ev (length (requests w)) of
       Some e \<Rightarrow>
         if e = ClientError ConditionalCheckFailed
         then (Inr (), said (''[SKIP] Newer/equal version exists for '' @ pk @ '' '' @ sk) w1)
         else (Inl (Raised e), w1)
     | None \<Rightarrow>
        (case (case version_guard item g of None \<Rightarrow> Some True
                 | Some ce \<Rightarrow> eval_cond (table w (pk, sk)) ce) of
           None \<Rightarrow> (Inl Unmodelled, w1)
         | Some True \<Rightarrow>
             (Inr (), said (''[OK ] DDB PUT '' @ pk @ '' '' @ sk)
                        (w1\<lparr>table := (table w)((pk, sk) \<mapsto> item)\<rparr>))
         | Some False \<Rightarrow>
             (Inr (), said (''[SKIP] Newer/equal version exists for '' @ pk @ '' '' @ sk) w1)))"
  using assms
  by (auto simp: ddb_put_live_def try_m_def bind_m_def put_item_def log_put_key py_print_def
      sent_def said_def Let_def raise_def stop_def
      split: option.splits bool.splits exn.splits)

text \<open>
  C1. A guarded write of an Activity record (an item with its key and an integer
  version), on a table whose record under that key, if there is one, carries an integer
  version: when the service does not fail, the conditional put goes through exactly when
  no record is stored under the key or the stored version is at most the new one; then the
  item is stored and an OK line printed. Otherwise the table is left as it was, a SKIP
  line is printed and the call returns normally. A failure of the service other than the
  failed condition is raised, and nothing that follows the call in the run is executed.
\<close>

theorem guarded_put_live_outcome:
  assumes "item_key item = Some (pk, sk)"
    and "map_of item ''version'' = Some (PyInt v)"
    and "table w (pk, sk) = None \<or> live_version w (pk, sk) \<noteq> None"
  shows "(fault_at ev (length (requests w)) = None \<longrightarrow>
            ddb_put_live ev item True False w =
              (let w1 = sent (PutItem item
                         (Some (CondOr (AttributeNotExists ''version'') (AttrLe ''version'' (PyInt v))))) w
               in if table w (pk, sk) = None \<or> (\<exists>v0. live_version w (pk, sk) = Some v0 \<and> v0 \<le> v)
                  then (Inr (), said (''[OK ] DDB PUT '' @ pk @ '' '' @ sk)
                                  (w1\<lparr>table := (table w)((pk, sk) \<mapsto> item)\<rparr>))
                  else (Inr (), said (''[SKIP] Newer/equal version exists for '' @ pk @ '' '' @ sk) w1)))
       \<and> (\<forall>e rest. fault_at ev (length (requests w)) = Some e \<longrightarrow>
            e \<noteq> ClientError ConditionalCheckFailed \<longrightarrow>
            bind_m (ddb_put_live ev item True False) rest w =
              (Inl (Raised e), sent (PutItem item
                 (Some (CondOr (AttributeNotExists ''version'') (AttrLe ''version'' (PyInt v))))) w))"
proof -
  have guard: "version_guard item True =
      Some (CondOr (AttributeNotExists ''version'') (AttrLe ''version'' (PyInt v)))"
    using assms(2) by (simp add: version_guard_def)
  show ?thesis
    using assms(3)
    by (auto simp: ddb_put_live_run [OF assms(1)] guard bind_m_def Let_def live_version_def
        version_of_Some split: option.splits pyval.splits)
qed

theorem guarded_put_live_outcome_witness:
  "ddb_put_live env_ok (demo_item 2) True False (world_live 1) =
     (Inr (), said ''[OK ] DDB PUT ACTIVITY#u_1#e_1#a_1 LIVE''
        ((sent (PutItem (demo_item 2)
            (Some (CondOr (AttributeNotExists ''version'') (AttrLe ''version'' (PyInt 2)))))
          (world_live 1))
         \<lparr>table := (table (world_live 1))((''ACTIVITY#u_1#e_1#a_1'', ''LIVE'') \<mapsto> demo_item 2)\<rparr>))
   \<and> ddb_put_live env_ok (demo_item 2) True False (world_live 3) =
     (Inr (), said ''[SKIP] Newer/equal version exists for ACTIVITY#u_1#e_1#a_1 LIVE''
        (sent (PutItem (demo_item 2)
            (Some (CondOr (AttributeNotExists ''version'') (AttrLe ''version'' (PyInt 2)))))
          (world_live 3)))"
proof -
  have key: "item_key (demo_item 2) = Some (''ACTIVITY#u_1#e_1#a_1'', ''LIVE'')"
    by (simp add: demo_item_def SEP_def)
  have new: "map_of (demo_item 2) ''version'' = Some (PyInt 2)"
    by (simp add: demo_item_def)
  have live: "live_version (world_live n) (''ACTIVITY#u_1#e_1#a_1'', ''LIVE'') = Some n" for n
    by (simp add: live_version_def world_live_def version_of_Some demo_item_def)
  have stored: "table (world_live n) (''ACTIVITY#u_1#e_1#a_1'', ''LIVE'') = Some (demo_item n)" for n
    by (simp add: world_live_def)
  have nofault: "fault_at env_ok (length (requests w)) = None" for w
    by (simp add: env_ok_def)
  from guarded_put_live_outcome [OF key new, of "world_live 1" env_ok]
       guarded_put_live_outcome [OF key new, of "world_live 3" env_ok]
  show ?thesis
    by (simp add: live stored nofault Let_def)
qed

section \<open>Versions never go back\<close>








section \<open>The pipeline, step by step\<close>

text \<open>
  Each level of the pipeline, once its document is found and read: the live record it
  writes, then the level below.
\<close>

lemma build_manifest_Inr:
  "build_manifest unit_id episode_id a_yaml = Inr m \<longleftrightarrow>
     (\<exists>v fq nq.
        py_int (dict_get_default a_yaml ''version'' (PyInt 1)) = Inr v \<and>
        fstring [Val unit_id, Lit ''/'', Val episode_id, Lit ''/'', Val (dict_get a_yaml ''id'')] = Some fq \<and>
        py_len (dict_get_default a_yaml ''questions'' (PyList [])) = Inr nq \<and>
        m = [(''unitId'', unit_id),
             (''episodeId'', episode_id),
             (''activityId'', dict_get a_yaml ''id''),
             (''activityFqId'', PyStr fq),
             (''title'', dict_get_default a_yaml ''title'' (dict_get a_yaml ''id'')),
             (''version'', PyInt v),
             (''locale'', dict_get_default a_yaml ''locale'' (PyStr ''en-US'')),
             (''total'', PyInt (int nq)),
             (''questions'', dict_get_default a_yaml ''questions'' (PyList []))])"
  by (auto simp: build_manifest_def Let_def split: sum.splits option.splits)

lemma fmt_Lit [simp]: "fmt (Lit s # ps) = bind_m (fmt ps) (\<lambda>r. ok (s @ r))"
  by (cases "fstring ps") (simp_all add: fmt_def)

lemma fmt_Nil [simp]: "fmt [] = ok []"
  by (simp add: fmt_def)

lemma fmt_Val: "py_str v = Some s \<Longrightarrow> fmt (Val v # ps) = bind_m (fmt ps) (\<lambda>r. ok (s @ r))"
  by (cases "fstring ps") (simp_all add: fmt_def)

lemma fmt_Val_None: "py_str v = None \<Longrightarrow> fmt (Val v # ps) = stop Unmodelled"
  by (simp add: fmt_def)

lemma subscript_Some: "map_of d k = Some v \<Longrightarrow> subscript d k = ok v"
  by (simp add: subscript_def)

lemma publish_activity_run:
  assumes "py_or content (PyDict []) = PyDict a_yaml"
    and "build_manifest unit_id episode_id a_yaml = Inr m"
    and "py_str (py_or (dict_get a_yaml ''id'') (PyStr (stem name))) = Some aid"
    and "py_int (dict_get_default a_yaml ''version'' (PyInt 1)) = Inr v"
  shows "publish_activity ev bucket s3_prefix dry unit_id uid episode_id eid (name, content) =
     bind_m (s3_put_json ev bucket (manifest_key s3_prefix uid eid aid v m) (PyDict m) dry) (\<lambda>u.
     bind_m (now ev) (\<lambda>t.
     ddb_put_live ev
       (activity_item unit_id uid episode_id eid
          (py_or (dict_get a_yaml ''id'') (PyStr (stem name))) aid
          (dict_get_default a_yaml ''title'' (py_or (dict_get a_yaml ''id'') (PyStr (stem name))))
          (dict_get_default m ''locale'' (PyStr ''en-US'')) bucket
          (manifest_key s3_prefix uid eid aid v m) (dict_get m ''total'') v t)
       True dry))"
proof -
  from assms(2,4) obtain fq nq where
    m: "m = [(''unitId'', unit_id),
             (''episodeId'', episode_id),
             (''activityId'', dict_get a_yaml ''id''),
             (''activityFqId'', PyStr fq),
             (''title'', dict_get_default a_yaml ''title'' (dict_get a_yaml ''id'')),
             (''version'', PyInt v),
             (''locale'', dict_get_default a_yaml ''locale'' (PyStr ''en-US'')),
             (''total'', PyInt (int nq)),
             (''questions'', dict_get_default a_yaml ''questions'' (PyList []))]"
    by (auto simp: build_manifest_Inr)
  have ver: "subscript m ''version'' = ok (PyInt v)" and tot: "subscript m ''total'' = ok (dict_get m ''total'')"
    by (simp_all add: m subscript_def dict_get_def)
  show ?thesis
    unfolding publish_activity_def manifest_key_def
    by (simp add: load_yaml_def as_dict_def assms Let_def ver tot fmt_Val)
qed

lemma publish_episode_run:
  assumes "map_of eentries (ename @ ''.yaml'') = Some (File content)"
    and "py_or content (PyDict []) = PyDict ep_yaml"
    and "list_activity_yaml eentries = ok acts"
    and "py_str (id_or ep_yaml ename) = Some eid"
  shows "publish_episode ev bucket s3_prefix dry episodes_path unit_id uid (ename, eentries) =
     bind_m (now ev) (\<lambda>t.
     bind_m (ddb_put_live ev
               (episode_item unit_id uid (id_or ep_yaml ename) eid
                  (dict_get_default ep_yaml ''title'' (id_or ep_yaml ename))
                  (map (stem \<circ> fst) acts) t)
               False dry) (\<lambda>u.
     for_each (publish_activity ev bucket s3_prefix dry unit_id uid (id_or ep_yaml ename) eid) acts))"
  using assms
  by (simp add: publish_episode_def discover_episode_yaml_def load_yaml_def as_dict_def Let_def
      fmt_Val id_or_def)

lemma publish_unit_run:
  assumes "discover_unit_yaml root_entries uname uentries = ok (File content)"
    and "py_or content (PyDict []) = PyDict unit_yaml"
    and "episode_dirs uentries = ok ep_dirs"
    and "py_str (id_or unit_yaml uname) = Some uid"
  shows "publish_unit ev bucket s3_prefix dry root_path root_entries (uname, uentries) =
     bind_m (now ev) (\<lambda>t.
     bind_m (ddb_put_live ev
               (unit_item uid (dict_get_default unit_yaml ''title'' (id_or unit_yaml uname))
                  (dict_get_default unit_yaml ''content'' (PyStr [])) (map fst ep_dirs) t)
               False dry) (\<lambda>u.
     if map_of uentries ''episodes'' = None
     then py_print (''[WARN] No episodes folder for unit '' @ uid)
     else for_each
            (publish_episode ev bucket s3_prefix dry (child (child root_path uname) ''episodes'')
               (id_or unit_yaml uname) uid)
            ep_dirs))"
  using assms
  by (simp add: publish_unit_def load_yaml_def as_dict_def Let_def fmt_Val id_or_def)

lemma item_key_unit_item [simp]:
  "item_key (unit_item uid ti co names t) = Some (''UNIT#'' @ uid, ''LIVE'')"
  by (simp add: item_key_def unit_item_def)

lemma item_key_episode_item [simp]:
  "item_key (episode_item unit_id uid episode_id eid ti stems t) =
     Some (''EPISODE#'' @ uid @ SEP @ eid, ''LIVE'')"
  by (simp add: item_key_def episode_item_def)

lemma version_guard_False [simp]: "version_guard item False = None"
  by (simp add: version_guard_def)

lemma now_run: "now ev w = (Inr (time_at ev (clock_reads w)), ticked w)"
  by (simp add: now_def ticked_def)

section \<open>Units without episodes\<close>

text \<open>
  C7. A Unit whose directory has no \<^verbatim>\<open>episodes\<close> entry, whose document is found and
  read, on a run that is not a dry run and whose request the service accepts: the Unit's
  live record is written with empty episode id lists, the OK line and the warning are
  printed, the step returns normally, and the loop goes on with the next Unit.
\<close>

theorem unit_without_episodes:
  assumes "map_of uentries ''episodes'' = None"
    and "discover_unit_yaml root_entries uname uentries = ok (File content)"
    and "py_or content (PyDict []) = PyDict unit_yaml"
    and "py_str (id_or unit_yaml uname) = Some uid"
    and "fault_at ev (length (requests w)) = None"
  shows "(let item = unit_item uid (dict_get_default unit_yaml ''title'' (id_or unit_yaml uname))
                      (dict_get_default unit_yaml ''content'' (PyStr [])) []
                      (time_at ev (clock_reads w));
              w' = said (''[WARN] No episodes folder for unit '' @ uid)
                     (said (''[OK ] DDB PUT UNIT#'' @ uid @ '' LIVE'')
                        (stored (''UNIT#'' @ uid, ''LIVE'') item (sent (PutItem item None) (ticked w))))
          in publish_unit ev bucket s3_prefix False root_path root_entries (uname, uentries) w = (Inr (), w')
           \<and> map_of item ''episodeIds'' = Some (PyList [])
           \<and> map_of item ''episodeFqIds'' = Some (PyList [])
           \<and> (\<forall>rest. for_each (publish_unit ev bucket s3_prefix False root_path root_entries)
                        ((uname, uentries) # rest) w =
                      for_each (publish_unit ev bucket s3_prefix False root_path root_entries) rest w'))"
proof -
  have dirs: "episode_dirs uentries = ok []"
    using assms(1) by (simp add: episode_dirs_def)
  have run: "publish_unit ev bucket s3_prefix False root_path root_entries (uname, uentries) w =
      (Inr (), said (''[WARN] No episodes folder for unit '' @ uid)
                     (said (''[OK ] DDB PUT UNIT#'' @ uid @ '' LIVE'')
                        (stored (''UNIT#'' @ uid, ''LIVE'')
                           (unit_item uid (dict_get_default unit_yaml ''title'' (id_or unit_yaml uname))
                              (dict_get_default unit_yaml ''content'' (PyStr [])) []
                              (time_at ev (clock_reads w)))
                           (sent (PutItem (unit_item uid (dict_get_default unit_yaml ''title'' (id_or unit_yaml uname))
                              (dict_get_default unit_yaml ''content'' (PyStr [])) []
                              (time_at ev (clock_reads w))) None) (ticked w)))))"
    using assms(1,5)
    by (simp add: publish_unit_run [OF assms(2,3) dirs assms(4)] bind_m_def now_run
        ddb_put_live_run [OF item_key_unit_item] Let_def py_print_def said_def sent_def stored_def
        ticked_def)
  show ?thesis
    unfolding Let_def
    by (simp add: run bind_m_def) (simp add: unit_item_def)
qed

theorem unit_without_episodes_witness:
  "fst (publish_unit env_ok ''bkt'' ''activities'' False ''content/units''
          [(''u_2'', Dir [(''u_2.yaml'', File PyNone)])] (''u_2'', [(''u_2.yaml'', File PyNone)])
          world0) = Inr ()
   \<and> stdout (snd (publish_unit env_ok ''bkt'' ''activities'' False ''content/units''
          [(''u_2'', Dir [(''u_2.yaml'', File PyNone)])] (''u_2'', [(''u_2.yaml'', File PyNone)])
          world0)) =
       [''[OK ] DDB PUT UNIT#u_2 LIVE'', ''[WARN] No episodes folder for unit u_2'']
   \<and> table (snd (publish_unit env_ok ''bkt'' ''activities'' False ''content/units''
          [(''u_2'', Dir [(''u_2.yaml'', File PyNone)])] (''u_2'', [(''u_2.yaml'', File PyNone)])
          world0)) (''UNIT#u_2'', ''LIVE'') =
       Some (unit_item ''u_2'' (PyStr ''u_2'') (PyStr []) [] 1700000000)"
proof -
  have a: "map_of [(''u_2.yaml'', File PyNone)] ''episodes'' = None" by simp
  have b: "discover_unit_yaml [(''u_2'', Dir [(''u_2.yaml'', File PyNone)])] ''u_2''
             [(''u_2.yaml'', File PyNone)] = ok (File PyNone)"
    by (simp add: discover_unit_yaml_def)
  have c: "py_or PyNone (PyDict []) = PyDict []" by (simp add: py_or_def)
  have d: "py_str (id_or [] ''u_2'') = Some ''u_2''"
    by (simp add: id_or_def py_or_def dict_get_def)
  have e: "fault_at env_ok (length (requests world0)) = None" by (simp add: env_ok_def)
  from unit_without_episodes [OF a b c d e, of "''bkt''" "''activities''" "''content/units''"]
  show ?thesis
    by (simp add: Let_def said_def stored_def sent_def ticked_def world0_def env_ok_def
        id_or_def py_or_def dict_get_def dict_get_default_def)
qed

section \<open>Episode ids: directory names and declared ids\<close>

text \<open>
  C10. For a Unit whose document is found and read and which has an \<^verbatim>\<open>episodes\<close>
  directory: the Unit's live record lists the names of the episode directories
  (\<open>episodeIds\<close>, and \<open>episodeFqIds\<close> built from them), and it is written before any
  episode is processed. An Episode whose document declares a non-empty id is recorded
  under that id: its key is \<open>EPISODE#unit#declared\<close> and its \<open>episodeId\<close> the declared
  id. So when the declared id differs from the directory name, neither the listed id nor
  the key derived from the listed fully-qualified id is the one the Episode record has.
\<close>

theorem unit_lists_directory_names:
  assumes "discover_unit_yaml root_entries uname uentries = ok (File content)"
    and "py_or content (PyDict []) = PyDict unit_yaml"
    and "py_str (id_or unit_yaml uname) = Some uid"
    and "map_of uentries ''episodes'' = Some (Dir ees)"
  shows "publish_unit ev bucket s3_prefix dry root_path root_entries (uname, uentries) =
           bind_m (now ev) (\<lambda>t.
           bind_m (ddb_put_live ev
                     (unit_item uid (dict_get_default unit_yaml ''title'' (id_or unit_yaml uname))
                        (dict_get_default unit_yaml ''content'' (PyStr []))
                        (map fst (subdirs ''e_'' ees)) t)
                     False dry) (\<lambda>u.
           for_each
             (publish_episode ev bucket s3_prefix dry (child (child root_path uname) ''episodes'')
                (id_or unit_yaml uname) uid)
             (subdirs ''e_'' ees)))
       \<and> (\<forall>ti co t.
            map_of (unit_item uid ti co (map fst (subdirs ''e_'' ees)) t) ''episodeIds'' =
              Some (PyList (map (\<lambda>d. PyStr (fst d)) (subdirs ''e_'' ees))) \<and>
            map_of (unit_item uid ti co (map fst (subdirs ''e_'' ees)) t) ''episodeFqIds'' =
              Some (PyList (map (\<lambda>d. PyStr (uid @ ''#'' @ fst d)) (subdirs ''e_'' ees))))
       \<and> (\<forall>ename eentries econtent ep_yaml declared acts episodes_path.
            map_of eentries (ename @ ''.yaml'') = Some (File econtent) \<and>
            py_or econtent (PyDict []) = PyDict ep_yaml \<and>
            dict_get ep_yaml ''id'' = PyStr declared \<and> declared \<noteq> [] \<and> declared \<noteq> ename \<and>
            list_activity_yaml eentries = ok acts \<longrightarrow>
            publish_episode ev bucket s3_prefix dry episodes_path (id_or unit_yaml uname) uid
                (ename, eentries) =
              bind_m (now ev) (\<lambda>t.
              bind_m (ddb_put_live ev
                        (episode_item (id_or unit_yaml uname) uid (PyStr declared) declared
                           (dict_get_default ep_yaml ''title'' (PyStr declared))
                           (map (stem \<circ> fst) acts) t)
                        False dry) (\<lambda>u.
              for_each (publish_activity ev bucket s3_prefix dry (id_or unit_yaml uname) uid
                          (PyStr declared) declared) acts))
            \<and> (\<forall>unit_id ti stems t.
                 item_key (episode_item unit_id uid (PyStr declared) declared ti stems t) =
                   Some (''EPISODE#'' @ uid @ ''#'' @ declared, ''LIVE'') \<and>
                 map_of (episode_item unit_id uid (PyStr declared) declared ti stems t) ''episodeId'' =
                   Some (PyStr declared))
            \<and> ''EPISODE#'' @ uid @ ''#'' @ declared \<noteq> ''EPISODE#'' @ uid @ ''#'' @ ename
            \<and> PyStr declared \<noteq> PyStr ename)"
proof (intro conjI allI impI)
  have dirs: "episode_dirs uentries = ok (subdirs ''e_'' ees)"
    using assms(4) by (simp add: episode_dirs_def)
  show "publish_unit ev bucket s3_prefix dry root_path root_entries (uname, uentries) =
           bind_m (now ev) (\<lambda>t.
           bind_m (ddb_put_live ev
                     (unit_item uid (dict_get_default unit_yaml ''title'' (id_or unit_yaml uname))
                        (dict_get_default unit_yaml ''content'' (PyStr []))
                        (map fst (subdirs ''e_'' ees)) t)
                     False dry) (\<lambda>u.
           for_each
             (publish_episode ev bucket s3_prefix dry (child (child root_path uname) ''episodes'')
                (id_or unit_yaml uname) uid)
             (subdirs ''e_'' ees)))"
    using assms(4) by (simp add: publish_unit_run [OF assms(1,2) dirs assms(3)])
next
  fix ti co t
  show "map_of (unit_item uid ti co (map fst (subdirs ''e_'' ees)) t) ''episodeIds'' =
              Some (PyList (map (\<lambda>d. PyStr (fst d)) (subdirs ''e_'' ees)))"
    by (simp add: unit_item_def comp_def)
  show "map_of (unit_item uid ti co (map fst (subdirs ''e_'' ees)) t) ''episodeFqIds'' =
              Some (PyList (map (\<lambda>d. PyStr (uid @ ''#'' @ fst d)) (subdirs ''e_'' ees)))"
    by (simp add: unit_item_def comp_def SEP_def)
next
  fix ename eentries econtent ep_yaml declared acts episodes_path
  assume h: "map_of eentries (ename @ ''.yaml'') = Some (File econtent) \<and>
            py_or econtent (PyDict []) = PyDict ep_yaml \<and>
            dict_get ep_yaml ''id'' = PyStr declared \<and> declared \<noteq> [] \<and> declared \<noteq> ename \<and>
            list_activity_yaml eentries = ok acts"
  then have id: "id_or ep_yaml ename = PyStr declared"
    by (simp add: id_or_def py_or_def)
  from h have a: "map_of eentries (ename @ ''.yaml'') = Some (File econtent)"
    and b: "py_or econtent (PyDict []) = PyDict ep_yaml"
    and c: "list_activity_yaml eentries = ok acts" by simp_all
  have d: "py_str (id_or ep_yaml ename) = Some declared" by (simp add: id)
  show "publish_episode ev bucket s3_prefix dry episodes_path (id_or unit_yaml uname) uid
                (ename, eentries) =
              bind_m (now ev) (\<lambda>t.
              bind_m (ddb_put_live ev
                        (episode_item (id_or unit_yaml uname) uid (PyStr declared) declared
                           (dict_get_default ep_yaml ''title'' (PyStr declared))
                           (map (stem \<circ> fst) acts) t)
                        False dry) (\<lambda>u.
              for_each (publish_activity ev bucket s3_prefix dry (id_or unit_yaml uname) uid
                          (PyStr declared) declared) acts))"
    using publish_episode_run [OF a b c d] by (simp add: id)
  show "''EPISODE#'' @ uid @ ''#'' @ declared \<noteq> ''EPISODE#'' @ uid @ ''#'' @ ename"
    using h by simp
  show "PyStr declared \<noteq> PyStr ename" using h by simp
next
  fix ename :: string and eentries :: "(string \<times> fsnode) list" and econtent ep_yaml and declared :: string
    and acts :: "(string \<times> pyval) list" and episodes_path :: string and unit_id ti stems t
  show "item_key (episode_item unit_id uid (PyStr declared) declared ti stems t) =
                   Some (''EPISODE#'' @ uid @ ''#'' @ declared, ''LIVE'')"
    by (simp add: SEP_def)
  show "map_of (episode_item unit_id uid (PyStr declared) declared ti stems t) ''episodeId'' =
                   Some (PyStr declared)"
    by (simp add: episode_item_def)
qed

theorem unit_lists_directory_names_witness:
  "map_of (unit_item ''u_1'' (PyStr ''Intro'') (PyStr [])
             (map fst (subdirs ''e_'' [(''e_1'', Dir [(''e_1.yaml'', File (PyDict [(''id'', PyStr ''intro'')]))])]))
             1700000000) ''episodeIds'' = Some (PyList [PyStr ''e_1''])
   \<and> item_key (episode_item (PyStr ''u_1'') ''u_1'' (PyStr ''intro'') ''intro'' (PyStr ''intro'') []
                  1700000000) = Some (''EPISODE#u_1#intro'', ''LIVE'')
   \<and> ''EPISODE#u_1#intro'' \<noteq> ''EPISODE#u_1#e_1''
   \<and> publish_episode env_ok ''bkt'' ''activities'' False ''content/units/u_1/episodes''
        (id_or [(''title'', PyStr ''Intro'')] ''u_1'') ''u_1''
        (''e_1'', [(''e_1.yaml'', File (PyDict [(''id'', PyStr ''intro'')]))]) =
      bind_m (now env_ok) (\<lambda>t.
      bind_m (ddb_put_live env_ok
                (episode_item (id_or [(''title'', PyStr ''Intro'')] ''u_1'') ''u_1'' (PyStr ''intro'')
                   ''intro'' (dict_get_default [(''id'', PyStr ''intro'')] ''title'' (PyStr ''intro''))
                   (map (stem \<circ> fst) []) t)
                False False) (\<lambda>u.
      for_each (publish_activity env_ok ''bkt'' ''activities'' False
                  (id_or [(''title'', PyStr ''Intro'')] ''u_1'') ''u_1'' (PyStr ''intro'') ''intro'') []))"
proof -
  let ?ees = "[(''e_1'', Dir [(''e_1.yaml'', File (PyDict [(''id'', PyStr ''intro'')]))])]"
  let ?uentries = "[(''u_1.yaml'', File (PyDict [(''title'', PyStr ''Intro'')])), (''episodes'', Dir ?ees)]"
  have a: "discover_unit_yaml [(''u_1'', Dir ?uentries)] ''u_1'' ?uentries =
      ok (File (PyDict [(''title'', PyStr ''Intro'')]))"
    by (simp add: discover_unit_yaml_def)
  have b: "py_or (PyDict [(''title'', PyStr ''Intro'')]) (PyDict []) = PyDict [(''title'', PyStr ''Intro'')]"
    by (simp add: py_or_def)
  have c: "py_str (id_or [(''title'', PyStr ''Intro'')] ''u_1'') = Some ''u_1''"
    by (simp add: id_or_def py_or_def dict_get_def)
  have d: "map_of ?uentries ''episodes'' = Some (Dir ?ees)" by simp
  have e: "map_of [(''e_1.yaml'', File (PyDict [(''id'', PyStr ''intro'')]))] (''e_1'' @ ''.yaml'') =
        Some (File (PyDict [(''id'', PyStr ''intro'')])) \<and>
      py_or (PyDict [(''id'', PyStr ''intro'')]) (PyDict []) = PyDict [(''id'', PyStr ''intro'')] \<and>
      dict_get [(''id'', PyStr ''intro'')] ''id'' = PyStr ''intro'' \<and> ''intro'' \<noteq> [] \<and>
      ''intro'' \<noteq> ''e_1'' \<and>
      list_activity_yaml [(''e_1.yaml'', File (PyDict [(''id'', PyStr ''intro'')]))] = ok []"
    by (simp add: py_or_def dict_get_def list_activity_yaml_def)
  from unit_lists_directory_names [OF a b c d, of env_ok "''bkt''" "''activities''" False "''content/units''"]
  have "(\<forall>ti co t.
            map_of (unit_item ''u_1'' ti co (map fst (subdirs ''e_'' ?ees)) t) ''episodeIds'' =
              Some (PyList (map (\<lambda>d. PyStr (fst d)) (subdirs ''e_'' ?ees))))"
    and "\<forall>ename eentries econtent ep_yaml declared acts episodes_path.
            map_of eentries (ename @ ''.yaml'') = Some (File econtent) \<and>
            py_or econtent (PyDict []) = PyDict ep_yaml \<and>
            dict_get ep_yaml ''id'' = PyStr declared \<and> declared \<noteq> [] \<and> declared \<noteq> ename \<and>
            list_activity_yaml eentries = ok acts \<longrightarrow>
            publish_episode env_ok ''bkt'' ''activities'' False episodes_path
                (id_or [(''title'', PyStr ''Intro'')] ''u_1'') ''u_1'' (ename, eentries) =
              bind_m (now env_ok) (\<lambda>t.
              bind_m (ddb_put_live env_ok
                        (episode_item (id_or [(''title'', PyStr ''Intro'')] ''u_1'') ''u_1''
                           (PyStr declared) declared
                           (dict_get_default ep_yaml ''title'' (PyStr declared))
                           (map (stem \<circ> fst) acts) t)
                        False False) (\<lambda>u.
              for_each (publish_activity env_ok ''bkt'' ''activities'' False
                          (id_or [(''title'', PyStr ''Intro'')] ''u_1'') ''u_1''
                          (PyStr declared) declared) acts))
            \<and> (\<forall>unit_id ti stems t.
                 item_key (episode_item unit_id ''u_1'' (PyStr declared) declared ti stems t) =
                   Some (''EPISODE#'' @ ''u_1'' @ ''#'' @ declared, ''LIVE'') \<and>
                 map_of (episode_item unit_id ''u_1'' (PyStr declared) declared ti stems t) ''episodeId'' =
                   Some (PyStr declared))
            \<and> ''EPISODE#'' @ ''u_1'' @ ''#'' @ declared \<noteq> ''EPISODE#'' @ ''u_1'' @ ''#'' @ ename
            \<and> PyStr declared \<noteq> PyStr ename"
    by blast+
  from this(1) this(2) [rule_format, OF e, of "''content/units/u_1/episodes''"]
  show ?thesis
    by (simp add: subdirs_def startswith_def)
qed

section \<open>Fully-qualified activity ids\<close>

text \<open>
  C5, as the code has it. An activity whose document is read and whose ids can be
  formatted is published with two fully-qualified ids. The Activity live record's
  \<open>activityFqid\<close>, and its key after \<open>ACTIVITY#\<close>, are unit id, episode id and activity
  id (the declared id, or the file's stem) joined by \<open>#\<close>. The manifest's
  \<open>activityFqId\<close> joins unit id, episode id and the id the document declares by \<open>/\<close>.
  No component is checked for the separator: the statement holds for ids that contain it.
\<close>

theorem activity_fqid_composition:
  assumes "py_or content (PyDict []) = PyDict a_yaml"
    and "build_manifest unit_id episode_id a_yaml = Inr m"
    and "py_int (dict_get_default a_yaml ''version'' (PyInt 1)) = Inr v"
    and "py_str unit_id = Some uid" and "py_str episode_id = Some eid"
    and "py_str (dict_get a_yaml ''id'') = Some declared"
    and "py_str (id_or a_yaml (stem name)) = Some aid"
  shows "publish_activity ev bucket s3_prefix dry unit_id uid episode_id eid (name, content) =
           bind_m (s3_put_json ev bucket (manifest_key s3_prefix uid eid aid v m) (PyDict m) dry) (\<lambda>u.
           bind_m (now ev) (\<lambda>t.
           ddb_put_live ev
             (activity_item unit_id uid episode_id eid (id_or a_yaml (stem name)) aid
                (dict_get_default a_yaml ''title'' (id_or a_yaml (stem name)))
                (dict_get_default m ''locale'' (PyStr ''en-US'')) bucket
                (manifest_key s3_prefix uid eid aid v m) (dict_get m ''total'') v t)
             True dry))
       \<and> map_of m ''activityFqId'' = Some (PyStr (uid @ ''/'' @ eid @ ''/'' @ declared))
       \<and> (\<forall>activity_id ti lo s3k tq t.
            map_of (activity_item unit_id uid episode_id eid activity_id aid ti lo bucket s3k tq v t)
                ''activityFqid'' = Some (PyStr (uid @ ''#'' @ eid @ ''#'' @ aid)) \<and>
            map_of (activity_item unit_id uid episode_id eid activity_id aid ti lo bucket s3k tq v t)
                ''PK'' = Some (PyStr (''ACTIVITY#'' @ uid @ ''#'' @ eid @ ''#'' @ aid)))"
proof (intro conjI allI)
  show "publish_activity ev bucket s3_prefix dry unit_id uid episode_id eid (name, content) =
           bind_m (s3_put_json ev bucket (manifest_key s3_prefix uid eid aid v m) (PyDict m) dry) (\<lambda>u.
           bind_m (now ev) (\<lambda>t.
           ddb_put_live ev
             (activity_item unit_id uid episode_id eid (id_or a_yaml (stem name)) aid
                (dict_get_default a_yaml ''title'' (id_or a_yaml (stem name)))
                (dict_get_default m ''locale'' (PyStr ''en-US'')) bucket
                (manifest_key s3_prefix uid eid aid v m) (dict_get m ''total'') v t)
             True dry))"
    using publish_activity_run [OF assms(1,2) assms(7) [unfolded id_or_def] assms(3)]
    by (simp add: id_or_def)
  show "map_of m ''activityFqId'' = Some (PyStr (uid @ ''/'' @ eid @ ''/'' @ declared))"
    using assms(2,4,5,6) by (auto simp: build_manifest_Inr)
next
  fix activity_id ti lo s3k tq t
  show "map_of (activity_item unit_id uid episode_id eid activity_id aid ti lo bucket s3k tq v t)
                ''activityFqid'' = Some (PyStr (uid @ ''#'' @ eid @ ''#'' @ aid))"
    by (simp add: activity_item_def SEP_def)
  show "map_of (activity_item unit_id uid episode_id eid activity_id aid ti lo bucket s3k tq v t)
                ''PK'' = Some (PyStr (''ACTIVITY#'' @ uid @ ''#'' @ eid @ ''#'' @ aid))"
    by (simp add: activity_item_def SEP_def)
qed

theorem activity_fqid_composition_witness:
  "map_of [(''unitId'', PyStr ''u_1''),
           (''episodeId'', PyStr ''e_1''),
           (''activityId'', PyStr ''a#1''),
           (''activityFqId'', PyStr ''u_1/e_1/a#1''),
           (''title'', PyStr ''a#1''),
           (''version'', PyInt 1),
           (''locale'', PyStr ''en-US''),
           (''total'', PyInt 0),
           (''questions'', PyList [])] ''activityFqId'' = Some (PyStr (''u_1'' @ ''/'' @ ''e_1'' @ ''/'' @ ''a#1''))
   \<and> map_of (activity_item (PyStr ''u_1'') ''u_1'' (PyStr ''e_1'') ''e_1'' (PyStr ''a#1'') ''a#1''
               (PyStr ''a#1'') (PyStr ''en-US'') ''bkt'' ''k'' (PyInt 0) 1 1700000000) ''PK'' =
       Some (PyStr ''ACTIVITY#u_1#e_1#a#1'')"
proof -
  let ?doc = "[(''id'', PyStr ''a#1'')]"
  let ?m = "[(''unitId'', PyStr ''u_1''),
           (''episodeId'', PyStr ''e_1''),
           (''activityId'', PyStr ''a#1''),
           (''activityFqId'', PyStr ''u_1/e_1/a#1''),
           (''title'', PyStr ''a#1''),
           (''version'', PyInt 1),
           (''locale'', PyStr ''en-US''),
           (''total'', PyInt 0),
           (''questions'', PyList [])]"
  have a: "py_or (PyDict ?doc) (PyDict []) = PyDict ?doc" by (simp add: py_or_def)
  have b: "build_manifest (PyStr ''u_1'') (PyStr ''e_1'') ?doc = Inr ?m"
    by (simp add: build_manifest_def dict_get_def dict_get_default_def Let_def)
  have c: "py_int (dict_get_default ?doc ''version'' (PyInt 1)) = Inr 1"
    by (simp add: dict_get_default_def)
  have d: "py_str (PyStr ''u_1'') = Some ''u_1''" and e: "py_str (PyStr ''e_1'') = Some ''e_1''"
    by simp_all
  have f: "py_str (dict_get ?doc ''id'') = Some ''a#1''" by (simp add: dict_get_def)
  have g: "py_str (id_or ?doc (stem ''a_1.yaml'')) = Some ''a#1''"
    by (simp add: id_or_def py_or_def dict_get_def)
  from activity_fqid_composition [OF a b c d e f g, of env_ok "''bkt''" "''activities''" False]
  show ?thesis by simp
qed

text \<open>
  The claim as the specification words it fails: the manifest's fully-qualified id is
  not the join by \<open>SEP\<close>, and ids that contain \<open>SEP\<close> are taken as they are.
\<close>

theorem manifest_fqid_counterexample:
  "build_manifest (PyStr ''u_1'') (PyStr ''e_1'') [(''id'', PyStr ''a_1'')] =
     Inr [(''unitId'', PyStr ''u_1''),
          (''episodeId'', PyStr ''e_1''),
          (''activityId'', PyStr ''a_1''),
          (''activityFqId'', PyStr ''u_1/e_1/a_1''),
          (''title'', PyStr ''a_1''),
          (''version'', PyInt 1),
          (''locale'', PyStr ''en-US''),
          (''total'', PyInt 0),
          (''questions'', PyList [])]
   \<and> ''u_1/e_1/a_1'' \<noteq> ''u_1'' @ SEP @ ''e_1'' @ SEP @ ''a_1''
   \<and> build_manifest (PyStr ''u#1'') (PyStr ''e_1'') [(''id'', PyStr ''a#1'')] =
     Inr [(''unitId'', PyStr ''u#1''),
          (''episodeId'', PyStr ''e_1''),
          (''activityId'', PyStr ''a#1''),
          (''activityFqId'', PyStr ''u#1/e_1/a#1''),
          (''title'', PyStr ''a#1''),
          (''version'', PyInt 1),
          (''locale'', PyStr ''en-US''),
          (''total'', PyInt 0),
          (''questions'', PyList [])]"
  by (simp add: build_manifest_def dict_get_def dict_get_default_def SEP_def Let_def)

section \<open>Defaults of an activity document\<close>

text \<open>
  C6. The activity file \<^verbatim>\<open>a_2.yaml\<close> of unit \<open>u_1\<close>, episode \<open>e_1\<close>, holding only
  \<^verbatim>\<open>version: 3\<close>. The manifest built for it has no activity id and no title
  (\<^verbatim>\<open>null\<close>) and the fully-qualified id \<open>u_1/e_1/None\<close>, while the id and the title of
  the live record are the file's stem \<open>a_2\<close>.
\<close>

theorem manifest_without_declared_id:
  "build_manifest (PyStr ''u_1'') (PyStr ''e_1'') [(''version'', PyInt 3)] =
     Inr [(''unitId'', PyStr ''u_1''),
          (''episodeId'', PyStr ''e_1''),
          (''activityId'', PyNone),
          (''activityFqId'', PyStr ''u_1/e_1/None''),
          (''title'', PyNone),
          (''version'', PyInt 3),
          (''locale'', PyStr ''en-US''),
          (''total'', PyInt 0),
          (''questions'', PyList [])]
   \<and> id_or [(''version'', PyInt 3)] (stem ''a_2.yaml'') = PyStr ''a_2''
   \<and> dict_get_default [(''version'', PyInt 3)] ''title''
        (id_or [(''version'', PyInt 3)] (stem ''a_2.yaml'')) = PyStr ''a_2''"
  by (simp add: build_manifest_def dict_get_def dict_get_default_def id_or_def py_or_def stem_def Let_def)

section \<open>Dry runs\<close>

text \<open>
  With the dry flag set no step of the pipeline sends a request or changes a store:
  shown for each step, then for the steps composed.
\<close>

lemma quiet_ok [quiet_intros]: "quiet (ok x)"
  by (simp add: quiet_def ok_def)

lemma quiet_stop [quiet_intros]: "quiet (stop f)"
  by (simp add: quiet_def stop_def)

lemma quiet_raise [quiet_intros]: "quiet (raise e)"
  by (simp add: raise_def quiet_stop)

lemma quiet_lift [quiet_intros]: "quiet (lift r)"
  by (simp add: quiet_def lift_def)

lemma quiet_print [quiet_intros]: "quiet (py_print l)"
  by (simp add: quiet_def py_print_def)

lemma quiet_die [quiet_intros]: "quiet (die msg)"
  by (simp add: quiet_def die_def)

lemma quiet_now [quiet_intros]: "quiet (now ev)"
  by (simp add: quiet_def now_def)

lemma quiet_fmt [quiet_intros]: "quiet (fmt ps)"
  by (simp add: fmt_def quiet_stop quiet_ok split: option.splits)

lemma quiet_subscript [quiet_intros]: "quiet (subscript d k)"
  by (simp add: subscript_def quiet_raise quiet_ok split: option.splits)

lemma quiet_bind [quiet_intros]:
  assumes "quiet c" and "\<And>x. quiet (f x)"
  shows "quiet (bind_m c f)"
  unfolding quiet_def bind_m_def
proof (intro allI)
  fix w
  show "table (snd (case c w of (Inl e, w') \<Rightarrow> (Inl e, w') | (Inr x, w') \<Rightarrow> f x w')) = table w \<and>
        objects (snd (case c w of (Inl e, w') \<Rightarrow> (Inl e, w') | (Inr x, w') \<Rightarrow> f x w')) = objects w \<and>
        requests (snd (case c w of (Inl e, w') \<Rightarrow> (Inl e, w') | (Inr x, w') \<Rightarrow> f x w')) = requests w"
  proof (cases "c w")
    case (Pair r w')
    with assms(1) have w': "table w' = table w" "objects w' = objects w" "requests w' = requests w"
      by (auto simp: quiet_def dest: spec [where x = w])
    show ?thesis
    proof (cases r)
      case (Inl e)
      with Pair w' show ?thesis by simp
    next
      case (Inr x)
      with Pair w' assms(2) [of x] show ?thesis by (simp add: quiet_def)
    qed
  qed
qed

lemma quiet_if [quiet_intros]: "quiet a \<Longrightarrow> quiet b \<Longrightarrow> quiet (if c then a else b)"
  by simp

lemma quiet_for_each [quiet_intros]:
  assumes "\<And>x. quiet (f x)"
  shows "quiet (for_each f xs)"
  by (induction xs) (auto intro: quiet_ok quiet_bind assms)

lemma quiet_s3_dry: "quiet (s3_put_json ev bucket key obj True)"
  by (simp add: s3_put_json_def Let_def quiet_print)

lemma quiet_ddb_dry: "quiet (ddb_put_live ev item g True)"
  by (auto simp: ddb_put_live_def intro!: quiet_intros)

lemma quiet_discover_unit: "quiet (discover_unit_yaml r n u)"
  by (auto simp: discover_unit_yaml_def intro!: quiet_intros split: option.splits)

lemma quiet_discover_episode: "quiet (discover_episode_yaml p n e)"
  by (auto simp: discover_episode_yaml_def intro!: quiet_intros split: option.splits)

lemma quiet_list_activity: "quiet (list_activity_yaml e)"
  by (auto simp: list_activity_yaml_def intro!: quiet_intros split: option.splits fsnode.splits)

lemma quiet_load_yaml: "quiet (load_yaml n)"
  by (auto simp: load_yaml_def intro!: quiet_intros split: fsnode.splits)

lemma quiet_as_dict: "quiet (as_dict v)"
  by (auto simp: as_dict_def intro!: quiet_intros split: pyval.splits)

lemma quiet_episode_dirs: "quiet (episode_dirs u)"
  by (auto simp: episode_dirs_def intro!: quiet_intros split: option.splits fsnode.splits)

lemmas quiet_steps = quiet_s3_dry quiet_ddb_dry quiet_discover_unit quiet_discover_episode
  quiet_list_activity quiet_load_yaml quiet_as_dict quiet_episode_dirs

lemma quiet_publish_activity:
  "quiet (publish_activity ev bucket s3_prefix True unit_id uid episode_id eid a)"
  unfolding publish_activity_def Let_def
  by (intro quiet_intros quiet_steps)

lemma quiet_publish_episode:
  "quiet (publish_episode ev bucket s3_prefix True p unit_id uid e)"
  unfolding publish_episode_def Let_def
  by (intro quiet_intros quiet_steps quiet_publish_activity)

lemma quiet_publish_unit:
  "quiet (publish_unit ev bucket s3_prefix True root_path root_entries u)"
  unfolding publish_unit_def Let_def
  by (intro quiet_intros quiet_steps quiet_publish_episode)

lemma quiet_publish: "quiet (publish ev root_path root bucket s3_prefix True)"
  by (auto simp: publish_def intro!: quiet_intros quiet_publish_unit split: option.splits fsnode.splits)

text \<open>
  C8. In a dry run the object-store client prints one line with the target and the size
  of the payload and returns; the live-registry client prints one line with the key and
  the record and returns, whatever the guard flag and whatever the table holds (the
  condition is evaluated by the service when it receives a request, and none is sent);
  and a whole dry run leaves the table and the bucket as they were and sends no request.
\<close>

theorem dry_run_sends_nothing:
  assumes "item_key item = Some (pk, sk)"
  shows "s3_put_json ev bucket key obj True w =
           (Inr (), said (''[DRY] S3 PUT s3://'' @ bucket @ ''/'' @ key @ '' ('' @
                          dec_int (int (length (json_default obj))) @ '' bytes)'') w)
       \<and> ddb_put_live ev item g True w =
           (Inr (), said (''[DRY] DDB PUT '' @ pk @ '' '' @ sk @ '' -> '' @
                          json_default (PyDict item)) w)
       \<and> table (snd (publish ev root_path root bucket s3_prefix True w)) = table w
       \<and> objects (snd (publish ev root_path root bucket s3_prefix True w)) = objects w
       \<and> requests (snd (publish ev root_path root bucket s3_prefix True w)) = requests w"
proof -
  have "s3_put_json ev bucket key obj True w =
           (Inr (), said (''[DRY] S3 PUT s3://'' @ bucket @ ''/'' @ key @ '' ('' @
                          dec_int (int (length (json_default obj))) @ '' bytes)'') w)"
    by (simp add: s3_put_json_def Let_def py_print_def said_def)
  moreover have "ddb_put_live ev item g True w =
           (Inr (), said (''[DRY] DDB PUT '' @ pk @ '' '' @ sk @ '' -> '' @
                          json_default (PyDict item)) w)"
    using assms
    by (simp add: ddb_put_live_def item_key_Some subscript_def fmt_Val py_print_def said_def)
  moreover note quiet_publish [of ev root_path root bucket s3_prefix, unfolded quiet_def]
  ultimately show ?thesis by simp
qed

theorem dry_run_sends_nothing_witness:
  "ddb_put_live env_ok (demo_item 2) True True (world_live 3) =
     (Inr (), said (''[DRY] DDB PUT ACTIVITY#u_1#e_1#a_1 LIVE -> '' @
                    json_default (PyDict (demo_item 2))) (world_live 3))
   \<and> requests (snd (publish env_ok ''content/units'' (Some demo_tree) ''bkt'' ''activities'' True
                      world0)) = []
   \<and> table (snd (publish env_ok ''content/units'' (Some demo_tree) ''bkt'' ''activities'' True
                   (world_live 3))) = table (world_live 3)"
proof -
  have key: "item_key (demo_item 2) = Some (''ACTIVITY#u_1#e_1#a_1'', ''LIVE'')"
    by (simp add: demo_item_def SEP_def)
  from dry_run_sends_nothing [OF key, where ev = env_ok and g = True and w = "world_live 3"]
       dry_run_sends_nothing [OF key, where ev = env_ok and root_path = "''content/units''"
         and root = "Some demo_tree" and bucket = "''bkt''" and s3_prefix = "''activities''"
         and w = world0]
       dry_run_sends_nothing [OF key, where ev = env_ok and root_path = "''content/units''"
         and root = "Some demo_tree" and bucket = "''bkt''" and s3_prefix = "''activities''"
         and w = "world_live 3"]
  show ?thesis by (simp add: world0_def)
qed

section \<open>Outcomes do not depend on the stores\<close>

text \<open>
  Whatever the table and the bucket hold, a run ends the same way, sends the same
  requests and reads the clock as often: a failed condition is caught where it is raised.
\<close>

lemma uniformI:
  assumes "\<And>w w'. alike ev w w' \<Longrightarrow>
        \<exists>rs n. fst (c w) = fst (c w') \<and>
           requests (snd (c w)) = requests w @ rs \<and> requests (snd (c w')) = requests w' @ rs \<and>
           clock_reads (snd (c w)) = clock_reads w + n \<and>
           clock_reads (snd (c w')) = clock_reads w' + n"
  shows "uniform ev c"
  using assms by (simp add: uniform_def)

lemma uniform_still:
  assumes "\<And>w. fst (c w) = r" and "\<And>w. requests (snd (c w)) = requests w"
    and "\<And>w. clock_reads (snd (c w)) = clock_reads w"
  shows "uniform ev c"
  by (rule uniformI, rule exI [where x = "[]"], rule exI [where x = 0]) (simp add: assms)

lemma uniform_ok [uniform_intros]: "uniform ev (ok x)"
  by (rule uniform_still [where r = "Inr x"]) (simp_all add: ok_def)

lemma uniform_stop [uniform_intros]: "uniform ev (stop f)"
  by (rule uniform_still [where r = "Inl f"]) (simp_all add: stop_def)

lemma uniform_raise [uniform_intros]: "uniform ev (raise e)"
  by (simp add: raise_def uniform_stop)

lemma uniform_lift [uniform_intros]: "uniform ev (lift r)"
  by (rule uniform_still [where r = r]) (simp_all add: lift_def)

lemma uniform_print [uniform_intros]: "uniform ev (py_print l)"
  by (rule uniform_still [where r = "Inr ()"]) (simp_all add: py_print_def)

lemma uniform_die [uniform_intros]: "uniform ev (die msg)"
  by (rule uniform_still [where r = "Inl (SystemExit 1)"]) (simp_all add: die_def)

lemma uniform_fmt [uniform_intros]: "uniform ev (fmt ps)"
  by (simp add: fmt_def uniform_stop uniform_ok split: option.splits)

lemma uniform_subscript [uniform_intros]: "uniform ev (subscript d k)"
  by (simp add: subscript_def uniform_raise uniform_ok split: option.splits)

lemma uniform_if [uniform_intros]:
  "uniform ev a \<Longrightarrow> uniform ev b \<Longrightarrow> uniform ev (if c then a else b)"
  by simp

lemma alike_head:
  "alike ev w w' \<Longrightarrow> fault_at ev (length (requests w)) = fault_at ev (length (requests w'))"
  "alike ev w w' \<Longrightarrow> time_at ev (clock_reads w) = time_at ev (clock_reads w')"
  by (auto simp: alike_def dest: spec [where x = 0])

lemma alike_shift:
  assumes "alike ev w w'"
    and "requests v = requests w @ rs" "requests v' = requests w' @ rs"
    and "clock_reads v = clock_reads w + n" "clock_reads v' = clock_reads w' + n"
  shows "alike ev v v'"
  unfolding alike_def
proof (intro conjI allI)
  fix i
  from assms(1) have "fault_at ev (length (requests w) + (length rs + i)) =
      fault_at ev (length (requests w') + (length rs + i))"
    by (simp add: alike_def)
  then show "fault_at ev (length (requests v) + i) = fault_at ev (length (requests v') + i)"
    by (simp add: assms add.assoc)
  from assms(1) have "time_at ev (clock_reads w + (n + i)) = time_at ev (clock_reads w' + (n + i))"
    by (simp add: alike_def)
  then show "time_at ev (clock_reads v + i) = time_at ev (clock_reads v' + i)"
    by (simp add: assms add.assoc)
qed

lemma uniform_now [uniform_intros]: "uniform ev (now ev)"
  by (rule uniformI, rule exI [where x = "[]"], rule exI [where x = 1])
     (simp add: now_def alike_head)

lemma uniform_bind [uniform_intros]:
  assumes "uniform ev c" and "\<And>x. uniform ev (f x)"
  shows "uniform ev (bind_m c f)"
proof (rule uniformI)
  fix w w' assume al: "alike ev w w'"
  with assms(1) obtain rs n where c: "fst (c w) = fst (c w')"
      "requests (snd (c w)) = requests w @ rs" "requests (snd (c w')) = requests w' @ rs"
      "clock_reads (snd (c w)) = clock_reads w + n" "clock_reads (snd (c w')) = clock_reads w' + n"
    unfolding uniform_def by blast
  show "\<exists>rs n. fst (bind_m c f w) = fst (bind_m c f w') \<and>
           requests (snd (bind_m c f w)) = requests w @ rs \<and>
           requests (snd (bind_m c f w')) = requests w' @ rs \<and>
           clock_reads (snd (bind_m c f w)) = clock_reads w + n \<and>
           clock_reads (snd (bind_m c f w')) = clock_reads w' + n"
  proof (cases "c w")
    case (Pair r v)
    obtain r' v' where cw': "c w' = (r', v')" by (cases "c w'")
    from c(1) Pair cw' have rr: "r' = r" by simp
    show ?thesis
    proof (cases r)
      case (Inl e)
      with Pair cw' rr have "bind_m c f w = (Inl e, v)" "bind_m c f w' = (Inl e, v')"
        by (simp_all add: bind_m_def)
      with c Pair cw' show ?thesis by auto
    next
      case (Inr x)
      with Pair cw' rr have b: "bind_m c f w = f x v" "bind_m c f w' = f x v'"
        by (simp_all add: bind_m_def)
      from c Pair cw' have c': "requests v = requests w @ rs" "requests v' = requests w' @ rs"
        "clock_reads v = clock_reads w + n" "clock_reads v' = clock_reads w' + n"
        by simp_all
      from alike_shift [OF al c'] assms(2) [of x]
      obtain rs2 n2 where f: "fst (f x v) = fst (f x v')"
        "requests (snd (f x v)) = requests v @ rs2"
        "requests (snd (f x v')) = requests v' @ rs2"
        "clock_reads (snd (f x v)) = clock_reads v + n2"
        "clock_reads (snd (f x v')) = clock_reads v' + n2"
        unfolding uniform_def by blast
      show ?thesis
        by (rule exI [where x = "rs @ rs2"], rule exI [where x = "n + n2"]) (simp add: b f c')
    qed
  qed
qed

lemma uniform_for_each [uniform_intros]:
  assumes "\<And>x. uniform ev (f x)"
  shows "uniform ev (for_each f xs)"
  by (induction xs) (auto intro: uniform_ok uniform_bind assms)

lemma uniform_put_object: "uniform ev (put_object ev b k bytes ct cc)"
proof (rule uniformI)
  fix w w' assume "alike ev w w'"
  then have "fault_at ev (length (requests w)) = fault_at ev (length (requests w'))"
    by (rule alike_head)
  then show "\<exists>rs n. fst (put_object ev b k bytes ct cc w) = fst (put_object ev b k bytes ct cc w') \<and>
           requests (snd (put_object ev b k bytes ct cc w)) = requests w @ rs \<and>
           requests (snd (put_object ev b k bytes ct cc w')) = requests w' @ rs \<and>
           clock_reads (snd (put_object ev b k bytes ct cc w)) = clock_reads w + n \<and>
           clock_reads (snd (put_object ev b k bytes ct cc w')) = clock_reads w' + n"
    by (intro exI [where x = "[PutObject b k bytes ct cc]"] exI [where x = 0])
       (auto simp: put_object_def Let_def split: option.splits)
qed

lemma uniform_s3_put_json: "uniform ev (s3_put_json ev b k obj dry)"
  unfolding s3_put_json_def Let_def
  by (intro uniform_intros uniform_put_object)

lemma eval_cond_None: "eval_cond old c = None \<longleftrightarrow> eval_cond old' c = None"
  by (induction old c rule: eval_cond.induct) (auto split: option.splits)

lemma uniform_ddb_put_live: "uniform ev (ddb_put_live ev item g dry)"
proof (cases dry)
  case True
  then show ?thesis by (auto simp: ddb_put_live_def intro!: uniform_intros)
next
  case False
  show ?thesis
  proof (rule uniformI)
    fix w w' assume "alike ev w w'"
    then have fa: "fault_at ev (length (requests w)) = fault_at ev (length (requests w'))"
      by (rule alike_head)
    have ec: "\<And>k ce. (eval_cond (table w k) ce = None) = (eval_cond (table w' k) ce = None)"
      by (rule eval_cond_None)
    show "\<exists>rs n. fst (ddb_put_live ev item g dry w) = fst (ddb_put_live ev item g dry w') \<and>
           requests (snd (ddb_put_live ev item g dry w)) = requests w @ rs \<and>
           requests (snd (ddb_put_live ev item g dry w')) = requests w' @ rs \<and>
           clock_reads (snd (ddb_put_live ev item g dry w)) = clock_reads w + n \<and>
           clock_reads (snd (ddb_put_live ev item g dry w')) = clock_reads w' + n"
    proof (cases "item_key item")
      case None
      show ?thesis
        using fa False None
        by (intro exI [where x = "[PutItem item (version_guard item g)]"] exI [where x = 0])
           (auto simp: ddb_put_live_def try_m_def bind_m_def put_item_def log_put_def subscript_def
             fmt_def py_print_def raise_def stop_def ok_def Let_def
             split: option.splits prod.splits sum.splits exn.splits failure.splits if_splits)
    next
      case (Some key)
      obtain pk sk where key: "key = (pk, sk)" by (cases key)
      show ?thesis
      proof (cases "version_guard item g")
        case None
        then show ?thesis
          using fa False
          by (intro exI [where x = "[PutItem item (version_guard item g)]"] exI [where x = 0])
             (auto simp: ddb_put_live_run [OF Some [unfolded key]] Let_def sent_def said_def
               split: option.splits bool.splits)
      next
        case (Some ce)
        then show ?thesis
          using fa False ec [of "(pk, sk)" ce]
          by (intro exI [where x = "[PutItem item (version_guard item g)]"] exI [where x = 0])
             (auto simp: ddb_put_live_run [OF \<open>item_key item = Some key\<close> [unfolded key]] Let_def
               sent_def said_def split: option.splits bool.splits)
      qed
    qed
  qed
qed


lemma uniform_discover_unit: "uniform ev (discover_unit_yaml r n u)"
  by (auto simp: discover_unit_yaml_def intro!: uniform_intros split: option.splits)

lemma uniform_discover_episode: "uniform ev (discover_episode_yaml p n e)"
  by (auto simp: discover_episode_yaml_def intro!: uniform_intros split: option.splits)

lemma uniform_list_activity: "uniform ev (list_activity_yaml e)"
  by (auto simp: list_activity_yaml_def intro!: uniform_intros split: option.splits fsnode.splits)

lemma uniform_load_yaml: "uniform ev (load_yaml n)"
  by (auto simp: load_yaml_def intro!: uniform_intros split: fsnode.splits)

lemma uniform_as_dict: "uniform ev (as_dict v)"
  by (auto simp: as_dict_def intro!: uniform_intros split: pyval.splits)

lemma uniform_episode_dirs: "uniform ev (episode_dirs u)"
  by (auto simp: episode_dirs_def intro!: uniform_intros split: option.splits fsnode.splits)

lemmas uniform_steps = uniform_s3_put_json uniform_ddb_put_live uniform_discover_unit
  uniform_discover_episode uniform_list_activity uniform_load_yaml uniform_as_dict
  uniform_episode_dirs

lemma uniform_publish_activity:
  "uniform ev (publish_activity ev bucket s3_prefix dry unit_id uid episode_id eid a)"
  unfolding publish_activity_def Let_def
  by (intro uniform_intros uniform_steps)

lemma uniform_publish_episode:
  "uniform ev (publish_episode ev bucket s3_prefix dry p unit_id uid e)"
  unfolding publish_episode_def Let_def
  by (intro uniform_intros uniform_steps uniform_publish_activity)

lemma uniform_publish_unit:
  "uniform ev (publish_unit ev bucket s3_prefix dry root_path root_entries u)"
  unfolding publish_unit_def Let_def
  by (intro uniform_intros uniform_steps uniform_publish_episode)

lemma uniform_publish: "uniform ev (publish ev root_path root bucket s3_prefix dry)"
  by (auto simp: publish_def intro!: uniform_intros uniform_publish_unit
      split: option.splits fsnode.splits)

lemma for_each_append:
  "for_each f (xs @ ys) = bind_m (for_each f xs) (\<lambda>u. for_each f ys)"
proof (induction xs)
  case Nil
  then show ?case by simp
next
  case (Cons x xs)
  have assoc: "bind_m (bind_m a b) c = bind_m a (\<lambda>x. bind_m (b x) c)" for a :: "unit m" and b c
    by (auto simp: bind_m_def fun_eq_iff split: prod.splits sum.splits)
  show ?case by (simp add: Cons.IH assoc)
qed

lemma for_each_abort:
  assumes "for_each f before w = (Inr (), w1)" and "f x w1 = (Inl e, w2)"
  shows "for_each f (before @ x # after) w = (Inl e, w2)"
  using assms by (simp add: for_each_append bind_m_def)

lemma publish_unit_no_document:
  assumes "map_of uentries (uname @ ''.yaml'') = None"
    and "map_of root_entries (uname @ ''.yaml'') = None"
  shows "publish_unit ev bucket s3_prefix dry root_path root_entries (uname, uentries) w =
     (Inl (SystemExit 1), w\<lparr>stderr := stderr w @ [''[ERROR] Unit YAML not found for '' @ uname]\<rparr>)"
  using assms by (simp add: publish_unit_def discover_unit_yaml_def bind_m_def die_def)

lemma publish_episode_no_document:
  assumes "map_of eentries (ename @ ''.yaml'') = None"
  shows "publish_episode ev bucket s3_prefix dry episodes_path unit_id uid (ename, eentries) w =
     (Inl (SystemExit 1),
      w\<lparr>stderr := stderr w @ [''[ERROR] Episode YAML not found: '' @
                               child (child episodes_path ename) (ename @ ''.yaml'')]\<rparr>)"
  using assms by (simp add: publish_episode_def discover_episode_yaml_def bind_m_def die_def)

text \<open>
  C9. When, in the sorted order of the run, the Units before have been published and a
  Unit has its document neither in its directory nor beside it, the run ends there with
  exit code 1 and one line on the error stream; nothing else changes. The same when an
  Episode directory lacks its document, after the Units and Episodes before it and the
  live record of its Unit. And the way a run ends does not depend on what the table
  holds, hence not on which guarded writes are skipped.
\<close>

theorem missing_document_aborts:
  "(\<forall>before uname uentries after w1.
      subdirs ''u_'' root_entries = before @ (uname, uentries) # after \<and>
      for_each (publish_unit ev bucket s3_prefix dry root_path root_entries) before w = (Inr (), w1) \<and>
      map_of uentries (uname @ ''.yaml'') = None \<and>
      map_of root_entries (uname @ ''.yaml'') = None \<longrightarrow>
      publish ev root_path (Some (Dir root_entries)) bucket s3_prefix dry w =
        (Inl (SystemExit 1),
         w1\<lparr>stderr := stderr w1 @ [''[ERROR] Unit YAML not found for '' @ uname]\<rparr>))
 \<and> (\<forall>ubefore uname uentries uafter w1 content unit_yaml uid ees w2 ebefore ename eentries eafter w3.
      subdirs ''u_'' root_entries = ubefore @ (uname, uentries) # uafter \<and>
      for_each (publish_unit ev bucket s3_prefix dry root_path root_entries) ubefore w = (Inr (), w1) \<and>
      discover_unit_yaml root_entries uname uentries = ok (File content) \<and>
      py_or content (PyDict []) = PyDict unit_yaml \<and>
      py_str (id_or unit_yaml uname) = Some uid \<and>
      map_of uentries ''episodes'' = Some (Dir ees) \<and>
      bind_m (now ev) (\<lambda>t. ddb_put_live ev
          (unit_item uid (dict_get_default unit_yaml ''title'' (id_or unit_yaml uname))
             (dict_get_default unit_yaml ''content'' (PyStr [])) (map fst (subdirs ''e_'' ees)) t)
          False dry) w1 = (Inr (), w2) \<and>
      subdirs ''e_'' ees = ebefore @ (ename, eentries) # eafter \<and>
      for_each (publish_episode ev bucket s3_prefix dry (child (child root_path uname) ''episodes'')
                  (id_or unit_yaml uname) uid) ebefore w2 = (Inr (), w3) \<and>
      map_of eentries (ename @ ''.yaml'') = None \<longrightarrow>
      publish ev root_path (Some (Dir root_entries)) bucket s3_prefix dry w =
        (Inl (SystemExit 1),
         w3\<lparr>stderr := stderr w3 @ [''[ERROR] Episode YAML not found: '' @
            child (child (child (child root_path uname) ''episodes'') ename) (ename @ ''.yaml'')]\<rparr>))
 \<and> (\<forall>live root. fst (publish ev root_path root bucket s3_prefix dry (w\<lparr>table := live\<rparr>)) =
                  fst (publish ev root_path root bucket s3_prefix dry w))"
proof (intro conjI allI impI)
  fix before uname uentries after w1
  assume h: "subdirs ''u_'' root_entries = before @ (uname, uentries) # after \<and>
      for_each (publish_unit ev bucket s3_prefix dry root_path root_entries) before w = (Inr (), w1) \<and>
      map_of uentries (uname @ ''.yaml'') = None \<and>
      map_of root_entries (uname @ ''.yaml'') = None"
  then have "for_each (publish_unit ev bucket s3_prefix dry root_path root_entries)
      (subdirs ''u_'' root_entries) w =
        (Inl (SystemExit 1),
         w1\<lparr>stderr := stderr w1 @ [''[ERROR] Unit YAML not found for '' @ uname]\<rparr>)"
    by (simp add: for_each_abort publish_unit_no_document)
  then show "publish ev root_path (Some (Dir root_entries)) bucket s3_prefix dry w =
        (Inl (SystemExit 1),
         w1\<lparr>stderr := stderr w1 @ [''[ERROR] Unit YAML not found for '' @ uname]\<rparr>)"
    by (simp add: publish_def bind_Inl)
next
  fix ubefore uname uentries uafter w1 content unit_yaml uid ees w2 ebefore ename eentries eafter
    and w3 :: world
  let ?pe = "publish_episode ev bucket s3_prefix dry (child (child root_path uname) ''episodes'')
                  (id_or unit_yaml uname) uid"
  let ?item = "\<lambda>t. unit_item uid (dict_get_default unit_yaml ''title'' (id_or unit_yaml uname))
             (dict_get_default unit_yaml ''content'' (PyStr [])) (map fst (subdirs ''e_'' ees)) t"
  let ?w4 = "w3\<lparr>stderr := stderr w3 @ [''[ERROR] Episode YAML not found: '' @
            child (child (child (child root_path uname) ''episodes'') ename) (ename @ ''.yaml'')]\<rparr>"
  assume h: "subdirs ''u_'' root_entries = ubefore @ (uname, uentries) # uafter \<and>
      for_each (publish_unit ev bucket s3_prefix dry root_path root_entries) ubefore w = (Inr (), w1) \<and>
      discover_unit_yaml root_entries uname uentries = ok (File content) \<and>
      py_or content (PyDict []) = PyDict unit_yaml \<and>
      py_str (id_or unit_yaml uname) = Some uid \<and>
      map_of uentries ''episodes'' = Some (Dir ees) \<and>
      bind_m (now ev) (\<lambda>t. ddb_put_live ev (?item t) False dry) w1 = (Inr (), w2) \<and>
      subdirs ''e_'' ees = ebefore @ (ename, eentries) # eafter \<and>
      for_each ?pe ebefore w2 = (Inr (), w3) \<and>
      map_of eentries (ename @ ''.yaml'') = None"
  then have dirs: "episode_dirs uentries = ok (subdirs ''e_'' ees)"
    by (simp add: episode_dirs_def)
  from h have eps: "for_each ?pe (subdirs ''e_'' ees) w2 = (Inl (SystemExit 1), ?w4)"
    by (simp add: for_each_abort publish_episode_no_document)
  have assoc: "bind_m (now ev) (\<lambda>t. bind_m (ddb_put_live ev (?item t) False dry) k) =
      bind_m (bind_m (now ev) (\<lambda>t. ddb_put_live ev (?item t) False dry)) k" for k
    by (auto simp: bind_m_def fun_eq_iff split: prod.splits sum.splits)
  from h have a: "discover_unit_yaml root_entries uname uentries = ok (File content)"
    and b: "py_or content (PyDict []) = PyDict unit_yaml"
    and c: "py_str (id_or unit_yaml uname) = Some uid"
    and d: "map_of uentries ''episodes'' = Some (Dir ees)"
    and step: "bind_m (now ev) (\<lambda>t. ddb_put_live ev (?item t) False dry) w1 = (Inr (), w2)"
    by blast+
  have run: "publish_unit ev bucket s3_prefix dry root_path root_entries (uname, uentries) =
      bind_m (bind_m (now ev) (\<lambda>t. ddb_put_live ev (?item t) False dry))
        (\<lambda>u. for_each ?pe (subdirs ''e_'' ees))"
    unfolding publish_unit_run [OF a b dirs c] assoc [symmetric] using d by simp
  have unit: "publish_unit ev bucket s3_prefix dry root_path root_entries (uname, uentries) w1 =
      (Inl (SystemExit 1), ?w4)"
    unfolding run
    using bind_Inr [of "bind_m (now ev) (\<lambda>t. ddb_put_live ev (?item t) False dry)" w1 "()" w2
        "\<lambda>u. for_each ?pe (subdirs ''e_'' ees)", OF step]
    by (simp add: eps)
  from h unit have "for_each (publish_unit ev bucket s3_prefix dry root_path root_entries)
      (subdirs ''u_'' root_entries) w = (Inl (SystemExit 1), ?w4)"
    by (simp add: for_each_abort)
  then show "publish ev root_path (Some (Dir root_entries)) bucket s3_prefix dry w =
        (Inl (SystemExit 1), ?w4)"
    by (simp add: publish_def bind_Inl)
next
  fix live root
  have "alike ev (w\<lparr>table := live\<rparr>) w" by (simp add: alike_def)
  with uniform_publish [of ev root_path root bucket s3_prefix dry]
  show "fst (publish ev root_path root bucket s3_prefix dry (w\<lparr>table := live\<rparr>)) =
        fst (publish ev root_path root bucket s3_prefix dry w)"
    unfolding uniform_def by blast
qed


theorem missing_document_aborts_witness:
  "publish env_ok ''content/units'' (Some (Dir [(''u_1'', Dir [])])) ''bkt'' ''activities'' False world0 =
     (Inl (SystemExit 1), world0\<lparr>stderr := [''[ERROR] Unit YAML not found for u_1'']\<rparr>)
   \<and> publish env_ok ''content/units''
       (Some (Dir [(''u_1'', Dir [(''u_1.yaml'', File PyNone), (''episodes'', Dir [(''e_1'', Dir [])])])]))
       ''bkt'' ''activities'' False world0 =
     (Inl (SystemExit 1),
      (said ''[OK ] DDB PUT UNIT#u_1 LIVE''
         (stored (''UNIT#u_1'', ''LIVE'')
            (unit_item ''u_1'' (PyStr ''u_1'') (PyStr []) [''e_1''] 1700000000)
            (sent (PutItem (unit_item ''u_1'' (PyStr ''u_1'') (PyStr []) [''e_1''] 1700000000) None)
               (ticked world0))))
      \<lparr>stderr := [''[ERROR] Episode YAML not found: content/units/u_1/episodes/e_1/e_1.yaml'']\<rparr>)"
proof -
  let ?r1 = "[(''u_1'', Dir [])]"
  let ?ees = "[(''e_1'', Dir [])]"
  let ?ue = "[(''u_1.yaml'', File PyNone), (''episodes'', Dir ?ees)]"
  let ?r2 = "[(''u_1'', Dir ?ue)]"
  let ?item = "unit_item ''u_1'' (PyStr ''u_1'') (PyStr []) [''e_1''] 1700000000"
  let ?w2 = "said ''[OK ] DDB PUT UNIT#u_1 LIVE''
         (stored (''UNIT#u_1'', ''LIVE'') ?item (sent (PutItem ?item None) (ticked world0)))"
  have a1: "subdirs ''u_'' ?r1 = [] @ (''u_1'', []) # [] \<and>
      for_each (publish_unit env_ok ''bkt'' ''activities'' False ''content/units'' ?r1) [] world0 =
        (Inr (), world0) \<and>
      map_of [] (''u_1'' @ ''.yaml'') = None \<and> map_of ?r1 (''u_1'' @ ''.yaml'') = None"
    by (simp add: subdirs_def startswith_def ok_def)
  have id: "id_or [] ''u_1'' = PyStr ''u_1''"
    by (simp add: id_or_def py_or_def dict_get_def)
  have b1: "subdirs ''u_'' ?r2 = [] @ (''u_1'', ?ue) # [] \<and>
      for_each (publish_unit env_ok ''bkt'' ''activities'' False ''content/units'' ?r2) [] world0 =
        (Inr (), world0) \<and>
      discover_unit_yaml ?r2 ''u_1'' ?ue = ok (File PyNone) \<and>
      py_or PyNone (PyDict []) = PyDict [] \<and>
      py_str (id_or [] ''u_1'') = Some ''u_1'' \<and>
      map_of ?ue ''episodes'' = Some (Dir ?ees) \<and>
      bind_m (now env_ok) (\<lambda>t. ddb_put_live env_ok
          (unit_item ''u_1'' (dict_get_default [] ''title'' (id_or [] ''u_1''))
             (dict_get_default [] ''content'' (PyStr [])) (map fst (subdirs ''e_'' ?ees)) t)
          False False) world0 = (Inr (), ?w2) \<and>
      subdirs ''e_'' ?ees = [] @ (''e_1'', []) # [] \<and>
      for_each (publish_episode env_ok ''bkt'' ''activities'' False
                  (child (child ''content/units'' ''u_1'') ''episodes'') (id_or [] ''u_1'') ''u_1'')
         [] ?w2 = (Inr (), ?w2) \<and>
      map_of [] (''e_1'' @ ''.yaml'') = None"
    by (simp add: subdirs_def startswith_def ok_def discover_unit_yaml_def py_or_def id
        dict_get_default_def bind_m_def now_run ddb_put_live_run [OF item_key_unit_item]
        Let_def env_ok_def world0_def said_def stored_def sent_def ticked_def)
  note A = missing_document_aborts [of ?r1 env_ok "''bkt''" "''activities''" False "''content/units''"
      world0, THEN conjunct1, rule_format, OF a1]
  note B = missing_document_aborts [of ?r2 env_ok "''bkt''" "''activities''" False "''content/units''"
      world0, THEN conjunct2, THEN conjunct1, rule_format, OF b1]
  from A B show ?thesis
    by (simp add: world0_def child_def said_def stored_def sent_def ticked_def)
qed

section \<open>The content hash\<close>

text \<open>
  The canonical serialisation sorts the items of every dictionary by key, so it does not
  see the order of insertion.
\<close>

lemma filter_key_distinct:
  assumes "distinct (map fst xs)" and "k \<in> set xs"
  shows "filter (\<lambda>x. fst k = fst x) xs = [k]"
  using assms
proof (induction xs)
  case Nil
  then show ?case by simp
next
  case (Cons x xs)
  show ?case
  proof (cases "k = x")
    case True
    with Cons.prems have "\<forall>y\<in>set xs. fst y \<noteq> fst x" by (auto simp: image_iff)
    then have "filter (\<lambda>y. fst x = fst y) xs = []" by (auto simp: filter_empty_conv)
    with True show ?thesis by simp
  next
    case False
    with Cons.prems have "k \<in> set xs" "fst k \<noteq> fst x" by (auto simp: image_iff)
    with Cons show ?thesis by simp
  qed
qed

lemma sort_key_distinct_set:
  assumes "distinct (map fst xs)" and "distinct (map fst ys)" and "set xs = set ys"
  shows "sort_key fst xs = sort_key fst ys"
proof (rule properties_for_sort_key)
  from assms have "distinct xs" "distinct ys" by (auto dest: distinct_map [THEN iffD1])
  with assms(3) have "mset xs = mset ys" by (simp add: set_eq_iff_mset_eq_distinct)
  then show "mset (sort_key fst ys) = mset xs" by simp
next
  fix k assume "k \<in> set (sort_key fst ys)"
  then have k: "k \<in> set ys" "k \<in> set xs" using assms(3) by simp_all
  have "distinct (map fst (sort_key fst ys))"
    using assms(2) by (simp add: distinct_map inj_on_def)
  with k have "filter (\<lambda>x. fst k = fst x) (sort_key fst ys) = [k]"
    by (intro filter_key_distinct) simp_all
  with filter_key_distinct [OF assms(1) k(2)]
  show "filter (\<lambda>x. fst k = fst x) (sort_key fst ys) = filter (\<lambda>x. fst k = fst x) xs" by simp
next
  show "sorted (map fst (sort_key fst ys))" by simp
qed

lemma same_content_canonical:
  "same_content a b \<Longrightarrow> json_dumps True isep ksep a = json_dumps True isep ksep b"
proof (induction rule: same_content.induct)
  case (sc_list xs ys)
  then have "map (json_dumps True isep ksep) xs = map (json_dumps True isep ksep) ys"
    by (induction rule: list_all2_induct) simp_all
  then show ?case by simp
next
  case (sc_dict d1 d2)
  let ?J = "\<lambda>(k, v). (k, json_dumps True isep ksep v)"
  have sub: "set (map ?J d1) \<subseteq> set (map ?J d2)"
  proof
    fix x assume "x \<in> set (map ?J d1)"
    then obtain k v where kv: "(k, v) \<in> set d1" "x = (k, json_dumps True isep ksep v)" by auto
    with sc_dict(4) obtain v' where "(k, v') \<in> set d2"
        "json_dumps True isep ksep v = json_dumps True isep ksep v'"
      by fastforce
    with kv show "x \<in> set (map ?J d2)" by (auto simp: image_iff intro!: bexI [where x = "(k, v')"])
  qed
  have keys1: "map fst (map ?J d1) = map fst d1" and keys2: "map fst (map ?J d2) = map fst d2"
    by (simp_all add: comp_def case_prod_unfold)
  have d1: "distinct (map ?J d1)" and d2: "distinct (map ?J d2)"
    using sc_dict(1,2) keys1 keys2 by (metis distinct_map)+
  have "card (set (map ?J d1)) = card (set (map ?J d2))"
    using d1 d2 sc_dict(3) by (simp add: distinct_card del: set_map)
  with sub have "set (map ?J d1) = set (map ?J d2)"
    by (simp add: card_subset_eq del: set_map)
  moreover have "distinct (map fst (map ?J d1))" "distinct (map fst (map ?J d2))"
    using sc_dict(1,2) by (simp_all only: keys1 keys2)
  ultimately have "sort_key fst (map ?J d1) = sort_key fst (map ?J d2)"
    by (intro sort_key_distinct_set)
  then show ?case by simp
qed simp_all


lemma same_content_py_int: "same_content a b \<Longrightarrow> py_int a = py_int b"
  by (induction rule: same_content.induct) simp_all

lemma same_content_py_str: "same_content a b \<Longrightarrow> py_str a = py_str b"
  by (induction rule: same_content.induct) simp_all

lemma same_content_py_len: "same_content a b \<Longrightarrow> py_len a = py_len b"
  by (induction rule: same_content.induct) (simp_all add: list_all2_lengthD)

lemma same_content_get:
  assumes "rel_option same_content (map_of d1 k) (map_of d2 k)" and "same_content x y"
  shows "same_content (dict_get_default d1 k x) (dict_get_default d2 k y)"
  using assms by (cases "map_of d1 k"; cases "map_of d2 k") (simp_all add: dict_get_default_def)

lemma dict_get_as_default: "dict_get d k = dict_get_default d k PyNone"
  by (simp add: dict_get_def dict_get_default_def)

lemma fstring_cong:
  "py_str a = py_str b \<Longrightarrow> fstring (Val a # ps) = fstring (Val b # ps)"
  by simp

lemma length_round256: "length s = 8 \<Longrightarrow> length (round256 s kw) = 8"
proof -
  assume "length s = 8"
  then obtain a b c d e f g h where "s = [a, b, c, d, e, f, g, h]"
    by (auto simp: length_Suc_conv eval_nat_numeral)
  then show ?thesis by (cases kw) (simp add: Let_def)
qed

lemma length_rounds: "length s = 8 \<Longrightarrow> length (foldl round256 s kws) = 8"
  by (induction kws arbitrary: s) (simp_all add: length_round256)

lemma length_compress: "length hs = 8 \<Longrightarrow> length (compress hs blk) = 8"
  by (simp add: compress_def length_rounds)

lemma length_sha256: "length (sha256 m) = 8"
proof -
  have "length hs = 8 \<Longrightarrow> length (foldl compress hs bs) = 8" for hs bs
    by (induction bs arbitrary: hs) (simp_all add: length_compress)
  then show ?thesis by (simp add: sha256_def Let_def H256_def)
qed

lemma length_hex32: "length (hex32 w) = 8"
  by (simp add: hex32_def)

lemma length_concat_hex: "length (concat (map hex32 ws)) = 8 * length ws"
  by (induction ws) (simp_all add: length_hex32)

lemma length_hexdigest: "length (sha256_hexdigest s) = 64"
  by (simp add: sha256_hexdigest_def length_concat_hex length_sha256)

lemma hexdigit_hex: "n < 16 \<Longrightarrow> hexdigit n \<in> set ''0123456789abcdef''"
proof -
  assume "n < 16"
  then have "''0123456789abcdef'' ! n \<in> set ''0123456789abcdef''"
    by (intro nth_mem) simp
  then show ?thesis by (simp only: hexdigit_def)
qed

lemma set_hex32: "set (hex32 w) \<subseteq> set ''0123456789abcdef''"
proof -
  have "hexdigit (nat ((w div 16 ^ (7 - i)) mod 16)) \<in> set ''0123456789abcdef''" for i :: nat
    by (rule hexdigit_hex) simp
  then show ?thesis unfolding hex32_def by (auto simp del: set_simps list.set)
qed

lemma set_hexdigest: "set (sha256_hexdigest s) \<subseteq> set ''0123456789abcdef''"
  unfolding sha256_hexdigest_def using set_hex32 by (auto simp del: set_simps list.set)

lemma sha256_short_format:
  "length (sha256_short obj) = 16 \<and> set (sha256_short obj) \<subseteq> set ''0123456789abcdef''"
proof -
  have "set (take 16 (sha256_hexdigest (json_canonical obj))) \<subseteq> set (sha256_hexdigest (json_canonical obj))"
    by (rule set_take_subset)
  with set_hexdigest [of "json_canonical obj"] show ?thesis
    unfolding sha256_short_def by (simp add: length_hexdigest del: set_simps list.set)
qed

text \<open>
  C4, as the code has it. The hash is taken over the whole manifest: unit id, episode id
  and the document's id, title, version, locale and questions (the fully-qualified id and
  the total follow from these). Two documents that agree on these fields, up to the order
  of the keys in the document and inside its values, give manifests with the same hash,
  and the hash is 16 lower-case hexadecimal characters.
\<close>

theorem manifest_hash_deterministic:
  assumes "\<forall>k\<in>set [''id'', ''title'', ''version'', ''locale'', ''questions''].
             rel_option same_content (map_of d1 k) (map_of d2 k)"
    and "build_manifest unit_id episode_id d1 = Inr m1"
  shows "\<exists>m2. build_manifest unit_id episode_id d2 = Inr m2 \<and>
              sha256_short (PyDict m2) = sha256_short (PyDict m1) \<and>
              length (sha256_short (PyDict m1)) = 16 \<and>
              set (sha256_short (PyDict m1)) \<subseteq> set ''0123456789abcdef''"
proof -
  let ?J = "json_dumps True '','' '':''"
  from assms(1) have rel: "rel_option same_content (map_of d1 ''id'') (map_of d2 ''id'')"
      "rel_option same_content (map_of d1 ''title'') (map_of d2 ''title'')"
      "rel_option same_content (map_of d1 ''version'') (map_of d2 ''version'')"
      "rel_option same_content (map_of d1 ''locale'') (map_of d2 ''locale'')"
      "rel_option same_content (map_of d1 ''questions'') (map_of d2 ''questions'')"
    by simp_all
  have c_id: "same_content (dict_get d1 ''id'') (dict_get d2 ''id'')"
    unfolding dict_get_as_default by (rule same_content_get [OF rel(1) sc_none])
  have c_title: "same_content (dict_get_default d1 ''title'' (dict_get d1 ''id''))
      (dict_get_default d2 ''title'' (dict_get d2 ''id''))"
    by (rule same_content_get [OF rel(2) c_id])
  have c_version: "same_content (dict_get_default d1 ''version'' (PyInt 1))
      (dict_get_default d2 ''version'' (PyInt 1))"
    by (rule same_content_get [OF rel(3) sc_int])
  have c_locale: "same_content (dict_get_default d1 ''locale'' (PyStr ''en-US''))
      (dict_get_default d2 ''locale'' (PyStr ''en-US''))"
    by (rule same_content_get [OF rel(4) sc_str])
  have c_questions: "same_content (dict_get_default d1 ''questions'' (PyList []))
      (dict_get_default d2 ''questions'' (PyList []))"
    by (rule same_content_get [OF rel(5)]) (simp add: sc_list)
  from assms(2) obtain v fq nq where
    v: "py_int (dict_get_default d1 ''version'' (PyInt 1)) = Inr v"
    and fq: "fstring [Val unit_id, Lit ''/'', Val episode_id, Lit ''/'', Val (dict_get d1 ''id'')] = Some fq"
    and nq: "py_len (dict_get_default d1 ''questions'' (PyList [])) = Inr nq"
    and m1: "m1 = [(''unitId'', unit_id),
             (''episodeId'', episode_id),
             (''activityId'', dict_get d1 ''id''),
             (''activityFqId'', PyStr fq),
             (''title'', dict_get_default d1 ''title'' (dict_get d1 ''id'')),
             (''version'', PyInt v),
             (''locale'', dict_get_default d1 ''locale'' (PyStr ''en-US'')),
             (''total'', PyInt (int nq)),
             (''questions'', dict_get_default d1 ''questions'' (PyList []))]"
    unfolding build_manifest_Inr by blast
  let ?m2 = "[(''unitId'', unit_id),
             (''episodeId'', episode_id),
             (''activityId'', dict_get d2 ''id''),
             (''activityFqId'', PyStr fq),
             (''title'', dict_get_default d2 ''title'' (dict_get d2 ''id'')),
             (''version'', PyInt v),
             (''locale'', dict_get_default d2 ''locale'' (PyStr ''en-US'')),
             (''total'', PyInt (int nq)),
             (''questions'', dict_get_default d2 ''questions'' (PyList []))]"
  have v2: "py_int (dict_get_default d2 ''version'' (PyInt 1)) = Inr v"
    using same_content_py_int [OF c_version] v by simp
  have fq2: "fstring [Val unit_id, Lit ''/'', Val episode_id, Lit ''/'', Val (dict_get d2 ''id'')] = Some fq"
  proof -
    have "fstring [Val unit_id, Lit ''/'', Val episode_id, Lit ''/'', Val (dict_get d2 ''id'')] =
        fstring [Val unit_id, Lit ''/'', Val episode_id, Lit ''/'', Val (dict_get d1 ''id'')]"
      by (simp add: same_content_py_str [OF c_id] split: option.splits)
    with fq show ?thesis by simp
  qed
  have nq2: "py_len (dict_get_default d2 ''questions'' (PyList [])) = Inr nq"
    using same_content_py_len [OF c_questions] nq by simp
  have built: "build_manifest unit_id episode_id d2 = Inr ?m2"
    unfolding build_manifest_Inr using v2 fq2 nq2 by blast
  have "json_canonical (PyDict ?m2) = json_canonical (PyDict m1)"
    unfolding m1 json_canonical_def
    by (simp add: same_content_canonical [OF c_id] same_content_canonical [OF c_title]
        same_content_canonical [OF c_locale] same_content_canonical [OF c_questions]
        del: json_dumps.simps(1-5))
  then have "sha256_short (PyDict ?m2) = sha256_short (PyDict m1)"
    by (simp add: sha256_short_def)
  with built sha256_short_format [of "PyDict m1"] show ?thesis by blast
qed


theorem manifest_hash_deterministic_witness:
  "\<exists>m2. build_manifest (PyStr ''u_1'') (PyStr ''e_1'')
           [(''questions'', PyList [PyDict [(''a'', PyInt 1), (''q'', PyStr ''x'')]]),
            (''id'', PyStr ''a_1'')] = Inr m2 \<and>
        sha256_short (PyDict m2) =
          sha256_short (PyDict
            [(''unitId'', PyStr ''u_1''), (''episodeId'', PyStr ''e_1''),
             (''activityId'', PyStr ''a_1''), (''activityFqId'', PyStr ''u_1/e_1/a_1''),
             (''title'', PyStr ''a_1''), (''version'', PyInt 1), (''locale'', PyStr ''en-US''),
             (''total'', PyInt 1),
             (''questions'', PyList [PyDict [(''q'', PyStr ''x''), (''a'', PyInt 1)]])])"
proof -
  let ?d1 = "[(''id'', PyStr ''a_1''),
              (''questions'', PyList [PyDict [(''q'', PyStr ''x''), (''a'', PyInt 1)]])]"
  let ?d2 = "[(''questions'', PyList [PyDict [(''a'', PyInt 1), (''q'', PyStr ''x'')]]),
              (''id'', PyStr ''a_1'')]"
  have q: "same_content (PyDict [(''q'', PyStr ''x''), (''a'', PyInt 1)])
      (PyDict [(''a'', PyInt 1), (''q'', PyStr ''x'')])"
    by (rule sc_dict) (auto intro: same_content.intros)
  have a: "\<forall>k\<in>set [''id'', ''title'', ''version'', ''locale'', ''questions''].
      rel_option same_content (map_of ?d1 k) (map_of ?d2 k)"
    using q by (simp add: sc_str sc_list)
  have b: "build_manifest (PyStr ''u_1'') (PyStr ''e_1'') ?d1 =
      Inr [(''unitId'', PyStr ''u_1''), (''episodeId'', PyStr ''e_1''),
             (''activityId'', PyStr ''a_1''), (''activityFqId'', PyStr ''u_1/e_1/a_1''),
             (''title'', PyStr ''a_1''), (''version'', PyInt 1), (''locale'', PyStr ''en-US''),
             (''total'', PyInt 1),
             (''questions'', PyList [PyDict [(''q'', PyStr ''x''), (''a'', PyInt 1)]])]"
    by (simp add: build_manifest_def dict_get_def dict_get_default_def Let_def)
  from manifest_hash_deterministic [OF a b] show ?thesis by blast
qed

text \<open>
  The claim as the specification words it fails: two manifests that agree on unit id,
  episode id, activity id, version and questions, and differ in the title, have
  different hashes.
\<close>

theorem manifest_hash_counterexample:
  "build_manifest (PyStr ''u_1'') (PyStr ''e_1'') [(''id'', PyStr ''a_1''), (''title'', PyStr ''Intro'')] =
     Inr manifest_intro
   \<and> build_manifest (PyStr ''u_1'') (PyStr ''e_1'') [(''id'', PyStr ''a_1''), (''title'', PyStr ''Basics'')] =
     Inr manifest_basics
   \<and> sha256_short (PyDict manifest_intro) = ''a6240ee1eb3e9efc''
   \<and> sha256_short (PyDict manifest_basics) = ''a303e87d6cf300db''
   \<and> sha256_short (PyDict manifest_intro) \<noteq> sha256_short (PyDict manifest_basics)"
proof -
  have a: "build_manifest (PyStr ''u_1'') (PyStr ''e_1'') [(''id'', PyStr ''a_1''), (''title'', PyStr ''Intro'')] =
     Inr manifest_intro"
    by (simp add: build_manifest_def dict_get_def dict_get_default_def Let_def manifest_intro_def)
  have b: "build_manifest (PyStr ''u_1'') (PyStr ''e_1'') [(''id'', PyStr ''a_1''), (''title'', PyStr ''Basics'')] =
     Inr manifest_basics"
    by (simp add: build_manifest_def dict_get_def dict_get_default_def Let_def manifest_basics_def)
  have c: "sha256_short (PyDict manifest_intro) = ''a6240ee1eb3e9efc''"
    by code_simp
  have d: "sha256_short (PyDict manifest_basics) = ''a303e87d6cf300db''"
    by code_simp
  from a b c d show ?thesis by simp
qed

section \<open>Publishing twice\<close>
















lemma tracks_still:
  assumes "\<And>w. requests (snd (c w)) = requests w" and "\<And>w. table (snd (c w)) = table w"
  shows "tracks c"
  unfolding tracks_def
  by (intro allI exI [where x = "[]"]) (simp add: assms replay_def)

lemma tracks_ok [tracks_intros]: "tracks (ok x)"
  by (rule tracks_still) (simp_all add: ok_def)

lemma tracks_stop [tracks_intros]: "tracks (stop f)"
  by (rule tracks_still) (simp_all add: stop_def)

lemma tracks_raise [tracks_intros]: "tracks (raise e)"
  by (simp add: raise_def tracks_stop)

lemma tracks_lift [tracks_intros]: "tracks (lift r)"
  by (rule tracks_still) (simp_all add: lift_def)

lemma tracks_print [tracks_intros]: "tracks (py_print l)"
  by (rule tracks_still) (simp_all add: py_print_def)

lemma tracks_die [tracks_intros]: "tracks (die msg)"
  by (rule tracks_still) (simp_all add: die_def)

lemma tracks_now [tracks_intros]: "tracks (now ev)"
  by (rule tracks_still) (simp_all add: now_def)

lemma tracks_fmt [tracks_intros]: "tracks (fmt ps)"
  by (simp add: fmt_def tracks_stop tracks_ok split: option.splits)

lemma tracks_subscript [tracks_intros]: "tracks (subscript d k)"
  by (simp add: subscript_def tracks_raise tracks_ok split: option.splits)

lemma tracks_if [tracks_intros]: "tracks a \<Longrightarrow> tracks b \<Longrightarrow> tracks (if c then a else b)"
  by simp

lemma replay_append: "replay (rs @ rs') T = replay rs' (replay rs T)"
  by (simp add: replay_def)

lemma tracks_bind [tracks_intros]:
  assumes "tracks c" and "\<And>x. tracks (f x)"
  shows "tracks (bind_m c f)"
  unfolding tracks_def
proof
  fix w
  obtain r v where cw: "c w = (r, v)" by (cases "c w")
  with assms(1) obtain rs where rs: "requests v = requests w @ rs"
      "table v = replay rs (table w)" "\<forall>r\<in>set rs. well_guarded r"
    unfolding tracks_def by (metis snd_conv)
  show "\<exists>rs. requests (snd (bind_m c f w)) = requests w @ rs \<and>
            table (snd (bind_m c f w)) = replay rs (table w) \<and> (\<forall>r\<in>set rs. well_guarded r)"
  proof (cases r)
    case (Inl e)
    with cw have "bind_m c f w = (Inl e, v)" by (simp add: bind_m_def)
    with rs show ?thesis by auto
  next
    case (Inr x)
    with cw have b: "bind_m c f w = f x v" by (simp add: bind_m_def)
    from assms(2) [of x] obtain rs' where rs': "requests (snd (f x v)) = requests v @ rs'"
        "table (snd (f x v)) = replay rs' (table v)" "\<forall>r\<in>set rs'. well_guarded r"
      unfolding tracks_def by blast
    show ?thesis
      by (rule exI [where x = "rs @ rs'"]) (use rs rs' in \<open>auto simp: b replay_append\<close>)
  qed
qed

lemma tracks_for_each [tracks_intros]:
  assumes "\<And>x. tracks (f x)"
  shows "tracks (for_each f xs)"
  by (induction xs) (auto intro: tracks_ok tracks_bind assms)

















subsection \<open>The example tree, run\<close>












end
